theory Spec2Isabelle
  imports Complex_Main "HOL-Library.Word" "HOL-Library.Multiset"
begin

section \<open>Data model of the background script\<close>

text \<open>
  The development follows the second \<open>LockdownBackground\<close> class of
  \<open>background.js\<close> (the Argon2id edition); the encryptor of the first class
  (format version 1.1) is kept as \<open>encryptData_v1\<close> because it is the producer of
  legacy envelopes.

  JavaScript objects used as structs become records. A field that a JavaScript
  object may lack is an \<open>option\<close>; \<open>None\<close> stands for \<open>undefined\<close>/\<open>null\<close>.
  Epoch milliseconds are natural numbers. A text is the list of characters of
  the JavaScript string; how the engine encodes a text and how it maps case are
  functions of the platform, about which nothing is assumed.
\<close>

type_synonym byte = "8 word"
type_synonym bytes = "byte list"

record credential =
  cred_id :: "string option"
  name :: "string option"
  domain :: "string option"
  username :: "string option"
  password :: "string option"
  url :: "string option"
  email :: "string option"
  created :: "nat option"
  modified :: "nat option"

record vault_data =
  credentials :: "credential list"
  vault_created :: nat
  vault_version :: string
  security :: "string option"

record kdf_params =
  kdf_time :: "nat option"
  kdf_memory :: "nat option"
  kdf_parallelism :: "nat option"
  kdf_hashLen :: "nat option"
  kdf_iterations :: "nat option"

text \<open>
  The persisted envelope. The \<open>encryptionTime\<close> field that the Argon2id encryptor
  adds (a \<open>performance.now()\<close> difference, read by nothing) is left out.
\<close>

record envelope =
  encrypted :: bytes
  salt :: bytes
  iv :: bytes
  version :: string
  kdf :: "string option"
  kdfParams :: "kdf_params option"

text \<open>\<open>this.argon2Params\<close> of the constructor.\<close>

record argon2_params =
  time :: nat
  mem :: nat
  hashLen :: nat
  parallelism :: nat
  argonType :: nat
  params_salt :: "bytes option"

text \<open>
  The value a message carries as \<open>masterPassword\<close>, and the value of
  \<open>this.masterPassword\<close>: the handlers store and use it unchecked, so it is a text,
  \<open>null\<close>, or absent (\<open>undefined\<close>). \<open>passphraseText\<close> is what
  \<open>TextEncoder.encode\<close> makes of it before encoding: the text itself, the text
  \<open>null\<close> for \<open>null\<close>, and the default argument, the empty text, for \<open>undefined\<close>.
\<close>

datatype passphrase = Absent | Null | Text string

definition passphraseText :: "passphrase \<Rightarrow> string" where
  "passphraseText p = (case p of Absent \<Rightarrow> [] | Null \<Rightarrow> ''null'' | Text w \<Rightarrow> w)"

definition isText :: "passphrase \<Rightarrow> bool" where
  "isText p = (case p of Text w \<Rightarrow> True | _ \<Rightarrow> False)"

text \<open>The option object handed to \<open>argon2.hash\<close> / \<open>argon2.argon2id\<close>.\<close>

record argon2_call =
  pass :: passphrase
  call_salt :: bytes
  call_time :: "nat option"
  call_mem :: "nat option"
  call_parallelism :: "nat option"
  call_hashLen :: "nat option"

text \<open>
  A thrown JavaScript error is identified with its \<open>message\<close>, which is all the
  handlers ever read. \<open>Msg\<close> is a message written in the source; the other
  constructors are the engine-worded messages of a WebCrypto failure, a
  \<open>JSON.parse\<close> failure, a property read on \<open>undefined\<close>, and a rejected
  \<open>chrome.storage\<close> call.
\<close>

datatype err_msg =
  Msg string
  | OperationErrorMsg
  | SyntaxErrorMsg
  | TypeErrorMsg
  | StorageErrorMsg

section \<open>The platform\<close>

text \<open>
  WebCrypto, the text codecs, \<open>JSON\<close>, the Argon2 WASM library and \<open>URL\<close> are not
  code of the repository; they are parameters of the model. \<open>'k\<close> is the type of
  \<open>CryptoKey\<close> objects. \<open>None\<close> is a rejected promise or a thrown exception.

  \<^item> \<open>deriveKey pw salt n\<close>: \<open>importKey('raw', pw, PBKDF2)\<close> followed by
    \<open>deriveKey\<close> with PBKDF2, SHA-256, \<open>n\<close> iterations, to an AES-GCM key of 256
    bits. (A raw PBKDF2 import accepts every byte string, so the import is not a
    separate failure point.)
  \<^item> \<open>importKey raw\<close>: \<open>importKey('raw', raw, AES-GCM)\<close>.
  \<^item> \<open>encrypt\<close>, \<open>decrypt\<close>: \<open>crypto.subtle.encrypt/decrypt\<close> with AES-GCM,
    arguments key, iv, data.
  \<^item> \<open>argon2_hash\<close>, \<open>argon2_argon2id\<close>: the two entry points the source probes
    with \<open>typeof\<close>; \<open>None\<close> when the entry point is not a function, else the
    function from call options to \<open>result.hash || result.hashBytes\<close>.
  \<^item> \<open>toLowerCase\<close>: \<open>String.prototype.toLowerCase\<close>, with the case mapping of
    the engine.
  \<^item> \<open>arraySort cmp xs\<close>: \<open>xs.sort(cmp)\<close> on an array of credentials; a comparator
    result \<open>None\<close> is \<open>NaN\<close>. With such results the order is the engine's choice.
  \<^item> \<open>remainingTime delay now unlocked\<close>: the object \<open>getRemainingTime\<close> computes
    in IEEE double arithmetic from \<open>this.autoLockDelay\<close>, \<open>Date.now()\<close> and
    \<open>this.unlockTime\<close>.
  \<^item> \<open>urlHostname u\<close>: \<open>new URL(u).hostname\<close>.
  \<^item> \<open>toString36 r\<close>: \<open>r.toString(36)\<close> of a \<open>Math.random()\<close> value.
  \<^item> \<open>sortRandomly\<close>: \<open>split('').sort(() => Math.random() - 0.5).join('')\<close>,
    whose result depends on the engine's sorting algorithm; it consumes the
    stream of \<open>Math.random()\<close> values it is given.
\<close>

record remaining_time =
  remaining :: int
  remainingMinutes :: int
  remainingSeconds :: int
  totalSeconds :: int

record 'k platform =
  textEncode :: "string \<Rightarrow> bytes"
  textDecode :: "bytes \<Rightarrow> string"
  jsonStringify :: "vault_data \<Rightarrow> string"
  jsonParse :: "string \<Rightarrow> vault_data option"
  deriveKey :: "bytes \<Rightarrow> bytes \<Rightarrow> nat \<Rightarrow> 'k option"
  importKey :: "bytes \<Rightarrow> 'k option"
  encrypt :: "'k \<Rightarrow> bytes \<Rightarrow> bytes \<Rightarrow> bytes option"
  decrypt :: "'k \<Rightarrow> bytes \<Rightarrow> bytes \<Rightarrow> bytes option"
  argon2_hash :: "(argon2_call \<Rightarrow> bytes option) option"
  argon2_argon2id :: "(argon2_call \<Rightarrow> bytes option) option"
  toLowerCase :: "string \<Rightarrow> string"
  arraySort :: "(credential \<Rightarrow> credential \<Rightarrow> int option) \<Rightarrow> credential list \<Rightarrow> credential list"
  remainingTime :: "int \<Rightarrow> nat \<Rightarrow> nat \<Rightarrow> remaining_time"
  urlHostname :: "string \<Rightarrow> string option"
  toString36 :: "real \<Rightarrow> string"
  sortRandomly :: "string \<Rightarrow> (nat \<Rightarrow> real) \<Rightarrow> string \<times> (nat \<Rightarrow> real)"

text \<open>
  \<open>crypto.getRandomValues(new Uint8Array(n))\<close>: the generator is a stream of
  bytes; a call takes the next \<open>n\<close> and leaves the rest.
\<close>

definition getRandomValues :: "nat \<Rightarrow> (nat \<Rightarrow> byte) \<Rightarrow> bytes \<times> (nat \<Rightarrow> byte)" where
  "getRandomValues n rng = (map rng [0..<n], \<lambda>i. rng (i + n))"

section \<open>Encryption\<close>

definition encryptDataWithEnhancedPBKDF2 ::
  "'k platform \<Rightarrow> (nat \<Rightarrow> byte) \<Rightarrow> vault_data \<Rightarrow> passphrase
     \<Rightarrow> (err_msg + envelope) \<times> (nat \<Rightarrow> byte)" where
  "encryptDataWithEnhancedPBKDF2 P rng data pw =
     (let dataString = jsonStringify P data;
          keyMaterial = textEncode P (passphraseText pw);
          (salt_v, rng1) = getRandomValues 32 rng;
          iterations = 250000
      in case deriveKey P keyMaterial salt_v iterations of
           None \<Rightarrow> (Inl OperationErrorMsg, rng1)
         | Some key \<Rightarrow>
             (let (iv_v, rng2) = getRandomValues 12 rng1;
                  dataBuffer = textEncode P dataString
              in case encrypt P key iv_v dataBuffer of
                   None \<Rightarrow> (Inl OperationErrorMsg, rng2)
                 | Some enc \<Rightarrow>
                     (Inr \<lparr>encrypted = enc, salt = salt_v, iv = iv_v,
                           version = ''2.0'', kdf = Some ''enhanced-pbkdf2'',
                           kdfParams = Some \<lparr>kdf_time = None, kdf_memory = None,
                             kdf_parallelism = None, kdf_hashLen = None,
                             kdf_iterations = Some iterations\<rparr>\<rparr>, rng2)))"

text \<open>
  The \<open>if (typeof argon2.hash === 'function') ... else if (typeof argon2.argon2id
  === 'function') ... else throw\<close> ladder, shared in shape by the encryptor and
  the decryptor. An absent global \<open>argon2\<close> throws at the first \<open>typeof
  argon2.hash\<close> and is the platform with both entry points \<open>None\<close>.
\<close>

definition argon2Derive :: "'k platform \<Rightarrow> argon2_call \<Rightarrow> bytes option" where
  "argon2Derive P opts =
     (case argon2_hash P of
        Some f \<Rightarrow> f opts
      | None \<Rightarrow>
          (case argon2_argon2id P of
             Some g \<Rightarrow> g opts
           | None \<Rightarrow> None))"

definition encryptDataWithArgon2 ::
  "'k platform \<Rightarrow> argon2_params \<Rightarrow> (nat \<Rightarrow> byte) \<Rightarrow> vault_data \<Rightarrow> passphrase
     \<Rightarrow> (err_msg + envelope) \<times> (nat \<Rightarrow> byte)" where
  "encryptDataWithArgon2 P ap rng data pw =
     (let dataString = jsonStringify P data;
          (salt_v, rng1) = getRandomValues 32 rng
      in case argon2Derive P \<lparr>pass = pw, call_salt = salt_v,
                call_time = Some (time ap), call_mem = Some (mem ap),
                call_parallelism = Some (parallelism ap),
                call_hashLen = Some (hashLen ap)\<rparr> of
           None \<Rightarrow> encryptDataWithEnhancedPBKDF2 P rng1 data pw
         | Some argon2Key \<Rightarrow>
             (let (iv_v, rng2) = getRandomValues 12 rng1
              in case importKey P argon2Key of
                   None \<Rightarrow> encryptDataWithEnhancedPBKDF2 P rng2 data pw
                 | Some cryptoKey \<Rightarrow>
                     (let dataBuffer = textEncode P dataString
                      in case encrypt P cryptoKey iv_v dataBuffer of
                           None \<Rightarrow> encryptDataWithEnhancedPBKDF2 P rng2 data pw
                         | Some enc \<Rightarrow>
                             (Inr \<lparr>encrypted = enc, salt = salt_v, iv = iv_v,
                                   version = ''2.0'', kdf = Some ''argon2id'',
                                   kdfParams = Some \<lparr>kdf_time = Some (time ap),
                                     kdf_memory = Some (mem ap),
                                     kdf_parallelism = Some (parallelism ap),
                                     kdf_hashLen = Some (hashLen ap),
                                     kdf_iterations = None\<rparr>\<rparr>, rng2))))"

definition encryptData ::
  "'k platform \<Rightarrow> bool \<Rightarrow> argon2_params \<Rightarrow> (nat \<Rightarrow> byte) \<Rightarrow> vault_data \<Rightarrow> passphrase
     \<Rightarrow> (err_msg + envelope) \<times> (nat \<Rightarrow> byte)" where
  "encryptData P argon2Loaded_v ap rng data pw =
     (if argon2Loaded_v then encryptDataWithArgon2 P ap rng data pw
      else encryptDataWithEnhancedPBKDF2 P rng data pw)"

text \<open>
  \<open>encryptData\<close> of the first class: 16 bytes of salt, 100000 iterations, format
  version 1.1, no \<open>kdf\<close> and no \<open>kdfParams\<close>.
\<close>

definition encryptData_v1 ::
  "'k platform \<Rightarrow> (nat \<Rightarrow> byte) \<Rightarrow> vault_data \<Rightarrow> passphrase
     \<Rightarrow> (err_msg + envelope) \<times> (nat \<Rightarrow> byte)" where
  "encryptData_v1 P rng data pw =
     (let keyMaterial = textEncode P (passphraseText pw);
          (salt_v, rng1) = getRandomValues 16 rng
      in case deriveKey P keyMaterial salt_v 100000 of
           None \<Rightarrow> (Inl OperationErrorMsg, rng1)
         | Some key \<Rightarrow>
             (let (iv_v, rng2) = getRandomValues 12 rng1;
                  dataBuffer = textEncode P (jsonStringify P data)
              in case encrypt P key iv_v dataBuffer of
                   None \<Rightarrow> (Inl OperationErrorMsg, rng2)
                 | Some enc \<Rightarrow>
                     (Inr \<lparr>encrypted = enc, salt = salt_v, iv = iv_v,
                           version = ''1.1'', kdf = None, kdfParams = None\<rparr>, rng2)))"

section \<open>Decryption\<close>

definition decryptDataWithArgon2 ::
  "'k platform \<Rightarrow> bool \<Rightarrow> envelope \<Rightarrow> passphrase \<Rightarrow> err_msg + vault_data" where
  "decryptDataWithArgon2 P argon2Loaded_v encryptedObj pw =
     (if \<not> argon2Loaded_v then Inl (Msg ''Argon2 library not available for decryption'')
      else
        (let failed = Inl (Msg ''Decryption failed: Invalid password or corrupted data'')
         in case kdfParams encryptedObj of
              None \<Rightarrow> failed
            | Some params \<Rightarrow>
                (case argon2Derive P \<lparr>pass = pw, call_salt = salt encryptedObj,
                         call_time = kdf_time params, call_mem = kdf_memory params,
                         call_parallelism = kdf_parallelism params,
                         call_hashLen = kdf_hashLen params\<rparr> of
                   None \<Rightarrow> failed
                 | Some argon2Key \<Rightarrow>
                     (case importKey P argon2Key of
                        None \<Rightarrow> failed
                      | Some cryptoKey \<Rightarrow>
                          (case decrypt P cryptoKey (iv encryptedObj) (encrypted encryptedObj) of
                             None \<Rightarrow> failed
                           | Some decrypted \<Rightarrow>
                               (case jsonParse P (textDecode P decrypted) of
                                  None \<Rightarrow> failed
                                | Some v \<Rightarrow> Inr v))))))"

definition decryptDataWithEnhancedPBKDF2 ::
  "'k platform \<Rightarrow> envelope \<Rightarrow> passphrase \<Rightarrow> err_msg + vault_data" where
  "decryptDataWithEnhancedPBKDF2 P encryptedObj pw =
     (let keyMaterial = textEncode P (passphraseText pw)
      in case kdfParams encryptedObj of
           None \<Rightarrow> Inl TypeErrorMsg
         | Some params \<Rightarrow>
             (case kdf_iterations params of
                None \<Rightarrow> Inl TypeErrorMsg
              | Some iterations \<Rightarrow>
                  (case deriveKey P keyMaterial (salt encryptedObj) iterations of
                     None \<Rightarrow> Inl OperationErrorMsg
                   | Some key \<Rightarrow>
                       (case decrypt P key (iv encryptedObj) (encrypted encryptedObj) of
                          None \<Rightarrow> Inl OperationErrorMsg
                        | Some decrypted \<Rightarrow>
                            (case jsonParse P (textDecode P decrypted) of
                               None \<Rightarrow> Inl SyntaxErrorMsg
                             | Some v \<Rightarrow> Inr v)))))"

definition decryptDataLegacy ::
  "'k platform \<Rightarrow> envelope \<Rightarrow> passphrase \<Rightarrow> err_msg + vault_data" where
  "decryptDataLegacy P encryptedObj pw =
     (let keyMaterial = textEncode P (passphraseText pw)
      in case deriveKey P keyMaterial (salt encryptedObj) 100000 of
           None \<Rightarrow> Inl OperationErrorMsg
         | Some key \<Rightarrow>
             (case decrypt P key (iv encryptedObj) (encrypted encryptedObj) of
                None \<Rightarrow> Inl OperationErrorMsg
              | Some decrypted \<Rightarrow>
                  (case jsonParse P (textDecode P decrypted) of
                     None \<Rightarrow> Inl SyntaxErrorMsg
                   | Some v \<Rightarrow> Inr v)))"

definition decryptVault ::
  "'k platform \<Rightarrow> bool \<Rightarrow> envelope \<Rightarrow> passphrase \<Rightarrow> err_msg + vault_data" where
  "decryptVault P argon2Loaded_v encryptedObj pw =
     (if kdf encryptedObj = Some ''argon2id''
        then decryptDataWithArgon2 P argon2Loaded_v encryptedObj pw
      else if kdf encryptedObj = Some ''enhanced-pbkdf2''
        then decryptDataWithEnhancedPBKDF2 P encryptedObj pw
      else decryptDataLegacy P encryptedObj pw)"

section \<open>JavaScript helpers\<close>

text \<open>Truthiness of an optional string, an optional timestamp and an optional number.\<close>

definition truthy_str :: "string option \<Rightarrow> bool" where
  "truthy_str x = (case x of None \<Rightarrow> False | Some v \<Rightarrow> v \<noteq> [])"

definition truthy_nat :: "nat option \<Rightarrow> bool" where
  "truthy_nat x = (case x of None \<Rightarrow> False | Some v \<Rightarrow> v \<noteq> 0)"

definition truthy_int :: "int option \<Rightarrow> bool" where
  "truthy_int x = (case x of None \<Rightarrow> False | Some v \<Rightarrow> v \<noteq> 0)"

text \<open>\<open>String.prototype.includes\<close>: \<open>str_includes s t\<close> is \<open>s.includes(t)\<close>.\<close>

fun startsWith :: "string \<Rightarrow> string \<Rightarrow> bool" where
  "startsWith s [] = True"
| "startsWith [] (c # t) = False"
| "startsWith (d # s) (c # t) = (d = c \<and> startsWith s t)"

fun str_includes :: "string \<Rightarrow> string \<Rightarrow> bool" where
  "str_includes [] t = (t = [])"
| "str_includes (d # s) t = (startsWith (d # s) t \<or> str_includes s t)"

text \<open>\<open>Number.prototype.toString()\<close> of a non-negative integer.\<close>

definition digitChar :: "nat \<Rightarrow> char" where
  "digitChar d = char_of (48 + d)"

fun string_of_nat :: "nat \<Rightarrow> string" where
  "string_of_nat n =
     (if n < 10 then [digitChar n] else string_of_nat (n div 10) @ [digitChar (n mod 10)])"

declare string_of_nat.simps [simp del]

definition substr :: "string \<Rightarrow> nat \<Rightarrow> nat \<Rightarrow> string" where
  "substr s start len = take len (drop start s)"

definition charAt :: "string \<Rightarrow> nat \<Rightarrow> string" where
  "charAt s i = (if i < length s then [s ! i] else [])"

text \<open>\<open>Array.prototype.findIndex\<close>; \<open>None\<close> is the result \<open>-1\<close>.\<close>

fun findIndex :: "('a \<Rightarrow> bool) \<Rightarrow> 'a list \<Rightarrow> nat option" where
  "findIndex p [] = None"
| "findIndex p (x # xs) =
     (if p x then Some 0 else (case findIndex p xs of None \<Rightarrow> None | Some i \<Rightarrow> Some (Suc i)))"

text \<open>\<open>xs.splice(index, 1)\<close>.\<close>

definition splice1 :: "nat \<Rightarrow> 'a list \<Rightarrow> 'a list" where
  "splice1 index xs = take index xs @ drop (Suc index) xs"

text \<open>
  The comparator \<open>(a, b) => (b.modified || b.created) - (a.modified || a.created)\<close>;
  \<open>None\<close> is \<open>NaN\<close> (a missing timestamp), which \<open>Array.prototype.sort\<close> treats
  as \<open>+0\<close>.
\<close>

definition recency :: "credential \<Rightarrow> nat option" where
  "recency c = (if truthy_nat (modified c) then modified c else created c)"

definition byRecency :: "credential \<Rightarrow> credential \<Rightarrow> int option" where
  "byRecency a b =
     (case (recency b, recency a) of
        (Some kb, Some ka) \<Rightarrow> Some (int kb - int ka)
      | _ \<Rightarrow> None)"

section \<open>Session, storage and browser state\<close>

text \<open>A \<open>setTimeout\<close> handle: a positive integer, hence always truthy.\<close>

datatype timeout_id = TimeoutId nat

text \<open>The fields of \<open>this\<close>.\<close>

record background =
  vault :: "vault_data option"
  isUnlocked :: bool
  masterPassword :: passphrase
  autoLockTimer :: "timeout_id option"
  autoLockDelay :: "int option"
  unlockTime :: "nat option"
  argon2Loaded :: bool
  argon2Params :: argon2_params

text \<open>
  What the handlers touch outside \<open>this\<close>: the three keys of
  \<open>chrome.storage.local\<close> (\<open>storage_available\<close> false makes every storage call
  reject), the pending timeouts with their delays, the byte stream behind
  \<open>crypto.getRandomValues\<close>, the successive readings of \<open>Date.now()\<close>, the
  successive values of \<open>Math.random()\<close>, and the messages broadcast to the content
  scripts.
\<close>

record browser =
  storage_vault :: "envelope option"
  storage_setupCompleted :: bool
  storage_autoLockDelay :: "int option"
  storage_available :: bool
  timeouts :: "(timeout_id \<times> int) list"
  nextTimeout :: nat
  random :: "nat \<Rightarrow> byte"
  clock :: "nat \<Rightarrow> nat"
  mathRandom :: "nat \<Rightarrow> real"
  notified :: "string list"

definition dateNow :: "browser \<Rightarrow> nat \<times> browser" where
  "dateNow b = (clock b 0, b\<lparr>clock := \<lambda>i. clock b (Suc i)\<rparr>)"

definition mathRandomNext :: "browser \<Rightarrow> real \<times> browser" where
  "mathRandomNext b = (mathRandom b 0, b\<lparr>mathRandom := \<lambda>i. mathRandom b (Suc i)\<rparr>)"

definition setTimeout :: "int \<Rightarrow> browser \<Rightarrow> timeout_id \<times> browser" where
  "setTimeout delay b =
     (TimeoutId (nextTimeout b),
      b\<lparr>timeouts := timeouts b @ [(TimeoutId (nextTimeout b), delay)],
        nextTimeout := Suc (nextTimeout b)\<rparr>)"

definition clearTimeout :: "timeout_id \<Rightarrow> browser \<Rightarrow> browser" where
  "clearTimeout t b = b\<lparr>timeouts := filter (\<lambda>p. fst p \<noteq> t) (timeouts b)\<rparr>"

definition notifyContentScripts :: "string \<Rightarrow> browser \<Rightarrow> browser" where
  "notifyContentScripts m b = b\<lparr>notified := notified b @ [m]\<rparr>"

record status =
  status_isUnlocked :: bool
  status_hasVault :: bool
  status_unlockTime :: "nat option"
  status_autoLockDelay :: "int option"
  status_credentialCount :: nat
  status_securityLevel :: string
  status_argon2Available :: bool

record security_status =
  sec_argon2Available :: bool
  sec_currentSecurity :: string
  sec_isUnlocked :: bool
  sec_hasVault :: bool
  sec_credentialCount :: nat

text \<open>The response objects.\<close>

datatype response =
  Success
  | SetupSuccess string
  | UnlockSuccess vault_data
  | SaveSuccess credential string
  | Failure err_msg
  | Credentials "credential list"
  | Password string
  | Status status
  | SecurityStatus security_status
  | RemainingNull
  | Remaining remaining_time

text \<open>The constructor's field values.\<close>

definition constructor :: background where
  "constructor =
     \<lparr>vault = None, isUnlocked = False, masterPassword = Null, autoLockTimer = None,
      autoLockDelay = Some (5 * 60 * 1000), unlockTime = None, argon2Loaded = False,
      argon2Params = \<lparr>time = 2, mem = 32 * 1024, hashLen = 32, parallelism = 1,
        argonType = 2, params_salt = None\<rparr>\<rparr>"

text \<open>
  \<open>init\<close>, up to the registration of the message listener. \<open>loaded\<close> is the
  value \<open>loadArgon2Library\<close> leaves in \<open>this.argon2Loaded\<close> (it depends on
  \<open>importScripts\<close>, \<open>fetch\<close> and the WASM self-test only); \<open>loadSettings\<close> follows.
\<close>

definition loadSettings :: "background \<Rightarrow> browser \<Rightarrow> background" where
  "loadSettings s b =
     (if \<not> storage_available b then s
      else s\<lparr>autoLockDelay :=
             (if truthy_int (storage_autoLockDelay b) then storage_autoLockDelay b
              else Some (5 * 60 * 1000))\<rparr>)"

definition init :: "bool \<Rightarrow> background \<Rightarrow> browser \<Rightarrow> background" where
  "init loaded s b = loadSettings (s\<lparr>argon2Loaded := loaded\<rparr>) b"

section \<open>The message handlers\<close>

text \<open>
  A handler takes \<open>this\<close> and the browser state and returns its response with both
  states as it leaves them. Handlers run one at a time: the model does not
  interleave two handlers at their \<open>await\<close> points.
\<close>

definition startAutoLockTimer :: "background \<Rightarrow> browser \<Rightarrow> background \<times> browser" where
  "startAutoLockTimer s b =
     (let (s1, b1) = (case autoLockTimer s of
                        Some t \<Rightarrow> (s\<lparr>autoLockTimer := None\<rparr>, clearTimeout t b)
                      | None \<Rightarrow> (s, b))
      in if \<not> truthy_int (autoLockDelay s1) then (s1, b1)
         else
           (let (now, b2) = dateNow b1;
                s2 = s1\<lparr>unlockTime := Some now\<rparr>;
                (t, b3) = setTimeout (case autoLockDelay s2 of Some d \<Rightarrow> d | None \<Rightarrow> 0) b2
            in (s2\<lparr>autoLockTimer := Some t\<rparr>, b3)))"

definition setupVault ::
  "'k platform \<Rightarrow> passphrase \<Rightarrow> background \<Rightarrow> browser \<Rightarrow> response \<times> background \<times> browser" where
  "setupVault P masterPassword_v s b =
     (let (now, b1) = dateNow b;
          vaultData = \<lparr>credentials = [], vault_created = now, vault_version = ''2.0'',
                       security = Some (if argon2Loaded s then ''argon2id''
                                        else ''enhanced-pbkdf2'')\<rparr>;
          (res, rng1) = encryptData P (argon2Loaded s) (argon2Params s) (random b1)
                          vaultData masterPassword_v;
          b2 = b1\<lparr>random := rng1\<rparr>
      in case res of
           Inl e \<Rightarrow> (Failure e, s, b2)
         | Inr enc \<Rightarrow>
             (if \<not> storage_available b2 then (Failure StorageErrorMsg, s, b2)
              else
                (let b3 = b2\<lparr>storage_vault := Some enc, storage_setupCompleted := True\<rparr>;
                     s1 = s\<lparr>vault := Some vaultData,
                            masterPassword := masterPassword_v,
                            isUnlocked := True\<rparr>;
                     (s2, b4) = startAutoLockTimer s1 b3;
                     b5 = notifyContentScripts ''VAULT_UNLOCKED'' b4
                 in (SetupSuccess (if argon2Loaded s then ''argon2id''
                                   else ''enhanced-pbkdf2''), s2, b5))))"

definition unlockVault ::
  "'k platform \<Rightarrow> passphrase \<Rightarrow> background \<Rightarrow> browser \<Rightarrow> response \<times> background \<times> browser" where
  "unlockVault P masterPassword_v s b =
     (if \<not> storage_available b then (Failure (Msg ''Invalid password''), s, b)
      else
        (case storage_vault b of
           None \<Rightarrow> (Failure (Msg ''No vault found''), s, b)
         | Some stored \<Rightarrow>
             (case decryptVault P (argon2Loaded s) stored masterPassword_v of
                Inl e \<Rightarrow> (Failure (Msg ''Invalid password''), s, b)
              | Inr vaultData \<Rightarrow>
                  (let s1 = s\<lparr>vault := Some vaultData,
                              masterPassword := masterPassword_v,
                              isUnlocked := True\<rparr>;
                       (s2, b1) = startAutoLockTimer s1 b;
                       b2 = notifyContentScripts ''VAULT_UNLOCKED'' b1
                   in (UnlockSuccess vaultData, s2, b2)))))"

definition lockVault :: "background \<Rightarrow> browser \<Rightarrow> response \<times> background \<times> browser" where
  "lockVault s b =
     (let s1 = s\<lparr>vault := None, masterPassword := Null, isUnlocked := False,
                 unlockTime := None\<rparr>;
          (s2, b1) = (case autoLockTimer s1 of
                        Some t \<Rightarrow> (s1\<lparr>autoLockTimer := None\<rparr>, clearTimeout t b)
                      | None \<Rightarrow> (s1, b));
          b2 = notifyContentScripts ''VAULT_LOCKED'' b1
      in (Success, s2, b2))"

text \<open>The save of the three mutating handlers: re-encrypt \<open>this.vault\<close>, then store.\<close>

definition persistVault ::
  "'k platform \<Rightarrow> vault_data \<Rightarrow> background \<Rightarrow> browser \<Rightarrow> (err_msg + envelope) \<times> browser" where
  "persistVault P v s b =
     (let (res, rng1) = encryptData P (argon2Loaded s) (argon2Params s) (random b)
                          v (masterPassword s);
          b1 = b\<lparr>random := rng1\<rparr>
      in case res of
           Inl e \<Rightarrow> (Inl e, b1)
         | Inr enc \<Rightarrow>
             (if \<not> storage_available b1 then (Inl StorageErrorMsg, b1)
              else (Inr enc, b1\<lparr>storage_vault := Some enc\<rparr>)))"

definition saveCredential ::
  "'k platform \<Rightarrow> credential \<Rightarrow> background \<Rightarrow> browser \<Rightarrow> response \<times> background \<times> browser" where
  "saveCredential P credential_v s b =
     (case (isUnlocked s, vault s) of
        (True, Some v) \<Rightarrow>
          (let (t1, b1) = dateNow b;
               (r, b2) = mathRandomNext b1;
               c1 = credential_v\<lparr>cred_id := Some (string_of_nat t1 @ substr (toString36 P r) 2 9)\<rparr>;
               (t2, b3) = dateNow b2;
               c2 = c1\<lparr>created := Some t2\<rparr>;
               (t3, b4) = dateNow b3;
               c3 = c2\<lparr>modified := Some t3\<rparr>;
               c4 = (if \<not> truthy_str (domain c3) \<and> truthy_str (url c3)
                     then (case urlHostname P (case url c3 of Some u \<Rightarrow> u | None \<Rightarrow> []) of
                             Some h \<Rightarrow> c3\<lparr>domain := Some h\<rparr>
                           | None \<Rightarrow> c3)
                     else c3);
               v1 = v\<lparr>credentials := credentials v @ [c4]\<rparr>;
               s1 = s\<lparr>vault := Some v1\<rparr>;
               (res, b5) = persistVault P v1 s1 b4
           in case res of
                Inl e \<Rightarrow> (Failure e, s1, b5)
              | Inr enc \<Rightarrow>
                  (SaveSuccess c4 (if truthy_str (kdf enc)
                                   then (case kdf enc of Some k \<Rightarrow> k | None \<Rightarrow> [])
                                   else ''legacy''), s1, b5))
      | _ \<Rightarrow> (Failure (Msg ''Vault is locked''), s, b))"

definition deleteCredential ::
  "'k platform \<Rightarrow> string \<Rightarrow> background \<Rightarrow> browser \<Rightarrow> response \<times> background \<times> browser" where
  "deleteCredential P credentialId s b =
     (case (isUnlocked s, vault s) of
        (True, Some v) \<Rightarrow>
          (case findIndex (\<lambda>cred. cred_id cred = Some credentialId) (credentials v) of
             None \<Rightarrow> (Failure (Msg ''Credential not found''), s, b)
           | Some index \<Rightarrow>
               (let v1 = v\<lparr>credentials := splice1 index (credentials v)\<rparr>;
                    s1 = s\<lparr>vault := Some v1\<rparr>;
                    (res, b1) = persistVault P v1 s1 b
                in case res of
                     Inl e \<Rightarrow> (Failure e, s1, b1)
                   | Inr enc \<Rightarrow> (Success, s1, b1)))
      | _ \<Rightarrow> (Failure (Msg ''Vault is locked''), s, b))"

definition updateCredential ::
  "'k platform \<Rightarrow> credential \<Rightarrow> background \<Rightarrow> browser \<Rightarrow> response \<times> background \<times> browser" where
  "updateCredential P credential_v s b =
     (case (isUnlocked s, vault s) of
        (True, Some v) \<Rightarrow>
          (case findIndex (\<lambda>cred. cred_id cred = cred_id credential_v) (credentials v) of
             None \<Rightarrow> (Failure (Msg ''Credential not found''), s, b)
           | Some index \<Rightarrow>
               (let (now, b1) = dateNow b;
                    c1 = credential_v\<lparr>modified := Some now\<rparr>;
                    v1 = v\<lparr>credentials := (credentials v)[index := c1]\<rparr>;
                    s1 = s\<lparr>vault := Some v1\<rparr>;
                    (res, b2) = persistVault P v1 s1 b1
                in case res of
                     Inl e \<Rightarrow> (Failure e, s1, b2)
                   | Inr enc \<Rightarrow> (Success, s1, b2)))
      | _ \<Rightarrow> (Failure (Msg ''Vault is locked''), s, b))"

definition credentialCount :: "background \<Rightarrow> nat" where
  "credentialCount s = (case vault s of Some v \<Rightarrow> length (credentials v) | None \<Rightarrow> 0)"

definition getSecurityStatus :: "background \<Rightarrow> response" where
  "getSecurityStatus s =
     SecurityStatus \<lparr>sec_argon2Available = argon2Loaded s,
       sec_currentSecurity = (if argon2Loaded s then ''argon2id'' else ''enhanced-pbkdf2''),
       sec_isUnlocked = isUnlocked s,
       sec_hasVault = (vault s \<noteq> None),
       sec_credentialCount = credentialCount s\<rparr>"

definition getStatus :: "background \<Rightarrow> response" where
  "getStatus s =
     Status \<lparr>status_isUnlocked = isUnlocked s,
       status_hasVault = (vault s \<noteq> None),
       status_unlockTime = unlockTime s,
       status_autoLockDelay = autoLockDelay s,
       status_credentialCount = credentialCount s,
       status_securityLevel = (if argon2Loaded s then ''argon2id'' else ''enhanced-pbkdf2''),
       status_argon2Available = argon2Loaded s\<rparr>"

definition matchesDomain :: "'k platform \<Rightarrow> string \<Rightarrow> credential \<Rightarrow> bool" where
  "matchesDomain P domain_v cred =
     (domain cred = Some domain_v
      \<or> (case url cred of
            None \<Rightarrow> False
          | Some u \<Rightarrow> u \<noteq> [] \<and> str_includes u domain_v)
      \<or> (case name cred of
            None \<Rightarrow> False
          | Some n \<Rightarrow> n \<noteq> [] \<and> str_includes (toLowerCase P n) (toLowerCase P domain_v)))"

definition getCredentials :: "'k platform \<Rightarrow> string \<Rightarrow> background \<Rightarrow> response" where
  "getCredentials P domain_v s =
     (case (isUnlocked s, vault s) of
        (True, Some v) \<Rightarrow>
          Credentials (arraySort P byRecency (filter (matchesDomain P domain_v) (credentials v)))
      | _ \<Rightarrow> Credentials [])"

definition getAllCredentials :: "'k platform \<Rightarrow> background \<Rightarrow> response" where
  "getAllCredentials P s =
     (case (isUnlocked s, vault s) of
        (True, Some v) \<Rightarrow> Credentials (arraySort P byRecency (credentials v))
      | _ \<Rightarrow> Credentials [])"

definition fieldIncludes :: "'k platform \<Rightarrow> string option \<Rightarrow> string \<Rightarrow> bool" where
  "fieldIncludes P field searchTerm =
     (case field of
        None \<Rightarrow> False
      | Some f \<Rightarrow> f \<noteq> [] \<and> str_includes (toLowerCase P f) searchTerm)"

definition searchCredentials :: "'k platform \<Rightarrow> string \<Rightarrow> background \<Rightarrow> response" where
  "searchCredentials P query s =
     (case (isUnlocked s, vault s) of
        (True, Some v) \<Rightarrow>
          (if query = [] then Credentials []
           else
             (let searchTerm = toLowerCase P query
              in Credentials (arraySort P byRecency
                   (filter (\<lambda>cred. fieldIncludes P (name cred) searchTerm
                                  \<or> fieldIncludes P (domain cred) searchTerm
                                  \<or> fieldIncludes P (username cred) searchTerm
                                  \<or> fieldIncludes P (email cred) searchTerm)
                      (credentials v)))))
      | _ \<Rightarrow> Credentials [])"

text \<open>\<open>charset.charAt(Math.floor(Math.random() * charset.length))\<close>.\<close>

definition randomChar :: "string \<Rightarrow> browser \<Rightarrow> string \<times> browser" where
  "randomChar charset b =
     (let (r, b1) = mathRandomNext b
      in (charAt charset (nat \<lfloor>r * real (length charset)\<rfloor>), b1))"

fun fillPassword :: "nat \<Rightarrow> string \<Rightarrow> string \<Rightarrow> browser \<Rightarrow> string \<times> browser" where
  "fillPassword 0 charset pw b = (pw, b)"
| "fillPassword (Suc n) charset pw b =
     (let (c, b1) = randomChar charset b in fillPassword n charset (pw @ c) b1)"

text \<open>
  \<open>remainingLength\<close> is \<open>length - password.length\<close>; when it is negative the loop
  body never runs, which the truncating subtraction gives as well.
\<close>

definition generatePassword ::
  "'k platform \<Rightarrow> nat \<Rightarrow> bool \<Rightarrow> browser \<Rightarrow> response \<times> browser" where
  "generatePassword P length_v includeSymbols b =
     (let lowercase = ''abcdefghijklmnopqrstuvwxyz'';
          uppercase = ''ABCDEFGHIJKLMNOPQRSTUVWXYZ'';
          numbers = ''0123456789'';
          symbols = ''!@#$%^&*'';
          charset = (if includeSymbols then lowercase @ uppercase @ numbers @ symbols
                     else lowercase @ uppercase @ numbers);
          (c1, b1) = randomChar lowercase b;
          (c2, b2) = randomChar uppercase b1;
          (c3, b3) = randomChar numbers b2;
          (c4, b4) = (if includeSymbols then randomChar symbols b3 else ([], b3));
          pw0 = c1 @ c2 @ c3 @ c4;
          (pw1, b5) = fillPassword (length_v - length pw0) charset pw0 b4;
          (pw2, rnd) = sortRandomly P pw1 (mathRandom b5)
      in (Password pw2, b5\<lparr>mathRandom := rnd\<rparr>))"

text \<open>
  The argument of \<open>UPDATE_AUTO_LOCK\<close>: the text \<open>never\<close>, or a value on which
  \<open>parseInt\<close> yields an integer (\<open>Some\<close>) or \<open>NaN\<close> (\<open>None\<close>).
\<close>

datatype delay_arg = Never | Delay "int option"

definition updateAutoLock :: "delay_arg \<Rightarrow> background \<Rightarrow> browser \<Rightarrow> response \<times> background \<times> browser" where
  "updateAutoLock delay s b =
     (let s1 = s\<lparr>autoLockDelay := (case delay of Never \<Rightarrow> None | Delay d \<Rightarrow> d)\<rparr>
      in if \<not> storage_available b then (Failure StorageErrorMsg, s1, b)
         else
           (let b1 = b\<lparr>storage_autoLockDelay := autoLockDelay s1\<rparr>;
                (s2, b2) = (if isUnlocked s1 then startAutoLockTimer s1 b1 else (s1, b1))
            in (Success, s2, b2)))"

definition getRemainingTime :: "'k platform \<Rightarrow> background \<Rightarrow> browser \<Rightarrow> response \<times> browser" where
  "getRemainingTime P s b =
     (if \<not> isUnlocked s \<or> \<not> truthy_nat (unlockTime s) \<or> \<not> truthy_int (autoLockDelay s)
      then (RemainingNull, b)
      else
        (let (now, b1) = dateNow b
         in (Remaining (remainingTime P
               (case autoLockDelay s of Some d \<Rightarrow> d | None \<Rightarrow> 0) now
               (case unlockTime s of Some t \<Rightarrow> t | None \<Rightarrow> 0)), b1)))"

text \<open>
  The messages. \<open>SETUP_VAULT\<close> and \<open>UNLOCK_VAULT\<close> carry \<open>message.masterPassword\<close>,
  whatever it is. \<open>GENERATE_PASSWORD\<close> carries \<open>message.length\<close> and
  \<open>message.symbols\<close>, either of which may be absent; \<open>Unknown\<close> is any other
  \<open>message.type\<close>. \<open>OPEN_POPUP\<close> opens a window and changes nothing the model
  holds.
\<close>

datatype message =
  SETUP_VAULT passphrase
  | UNLOCK_VAULT passphrase
  | LOCK_VAULT
  | GET_STATUS
  | SAVE_CREDENTIAL credential
  | GET_CREDENTIALS string
  | DELETE_CREDENTIAL string
  | UPDATE_CREDENTIAL credential
  | GENERATE_PASSWORD "nat option" "bool option"
  | UPDATE_AUTO_LOCK delay_arg
  | GET_REMAINING_TIME
  | OPEN_POPUP
  | GET_ALL_CREDENTIALS
  | SEARCH_CREDENTIALS string
  | GET_SECURITY_STATUS
  | Unknown string

text \<open>
  \<open>handleMessage\<close> together with the listener of \<open>init\<close>, which turns the
  exception of the \<open>default\<close> branch into \<open>{error: error.message}\<close>.
\<close>

fun handleMessage ::
  "'k platform \<Rightarrow> message \<Rightarrow> background \<Rightarrow> browser \<Rightarrow> response \<times> background \<times> browser" where
  "handleMessage P (SETUP_VAULT pw) s b = setupVault P pw s b"
| "handleMessage P (UNLOCK_VAULT pw) s b = unlockVault P pw s b"
| "handleMessage P LOCK_VAULT s b = lockVault s b"
| "handleMessage P GET_STATUS s b = (getStatus s, s, b)"
| "handleMessage P (SAVE_CREDENTIAL c) s b = saveCredential P c s b"
| "handleMessage P (GET_CREDENTIALS d) s b = (getCredentials P d s, s, b)"
| "handleMessage P (DELETE_CREDENTIAL i) s b = deleteCredential P i s b"
| "handleMessage P (UPDATE_CREDENTIAL c) s b = updateCredential P c s b"
| "handleMessage P (GENERATE_PASSWORD len symbols_v) s b =
     (let (r, b1) = generatePassword P
                      (if truthy_nat len then (case len of Some n \<Rightarrow> n | None \<Rightarrow> 32) else 32)
                      (symbols_v \<noteq> Some False) b
      in (r, s, b1))"
| "handleMessage P (UPDATE_AUTO_LOCK d) s b = updateAutoLock d s b"
| "handleMessage P GET_REMAINING_TIME s b =
     (let (r, b1) = getRemainingTime P s b in (r, s, b1))"
| "handleMessage P OPEN_POPUP s b = (Success, s, b)"
| "handleMessage P GET_ALL_CREDENTIALS s b = (getAllCredentials P s, s, b)"
| "handleMessage P (SEARCH_CREDENTIALS q) s b = (searchCredentials P q s, s, b)"
| "handleMessage P GET_SECURITY_STATUS s b = (getSecurityStatus s, s, b)"
| "handleMessage P (Unknown t) s b = (Failure (Msg (''Unknown message type: '' @ t)), s, b)"

text \<open>
  The callback of \<open>startAutoLockTimer\<close>: a pending timeout fires, leaves the
  pending set and calls \<open>lockVault\<close>. A timeout that is not pending cannot fire.
\<close>

definition timeoutFires :: "timeout_id \<Rightarrow> background \<Rightarrow> browser \<Rightarrow> background \<times> browser" where
  "timeoutFires t s b =
     (if t \<in> fst ` set (timeouts b)
      then (let (r, s1, b1) = lockVault s (clearTimeout t b) in (s1, b1))
      else (s, b))"

section \<open>Assumptions on the platform\<close>

text \<open>
  The properties of the platform that the claims about the vault rest on. They
  are hypotheses of the theorems that need them, never axioms.

  \<^item> \<open>aead_correct\<close>: AES-GCM decryption under the key and nonce of the encryption
    returns the plaintext.
  \<^item> \<open>aead_authentic\<close>: a ciphertext made under one key fails the tag check under
    every other key.
  \<^item> \<open>nonce_sensitive\<close>: two encryptions of one plaintext under different 96-bit
    nonces never give the same ciphertext.
  \<^item> \<open>derives_distinct_keys P p q\<close>: the passphrases \<open>p\<close> and \<open>q\<close> never lead to
    the same AES key, whether through PBKDF2 or through Argon2 and the raw import.
  \<^item> \<open>serializable P V\<close>: the vault \<open>V\<close> survives \<open>JSON.stringify\<close>, UTF-8 encoding,
    decoding and \<open>JSON.parse\<close>.
  \<^item> \<open>sort_permutes\<close>: \<open>Array.prototype.sort\<close> returns the elements it was given,
    each as often as it was given, whatever the comparator.
\<close>

definition aead_correct :: "'k platform \<Rightarrow> bool" where
  "aead_correct P =
     (\<forall>k n pt c. encrypt P k n pt = Some c \<longrightarrow> decrypt P k n c = Some pt)"




definition serializable :: "'k platform \<Rightarrow> vault_data \<Rightarrow> bool" where
  "serializable P V =
     (jsonParse P (textDecode P (textEncode P (jsonStringify P V))) = Some V)"

definition sort_permutes :: "'k platform \<Rightarrow> bool" where
  "sort_permutes P = (\<forall>cmp xs. mset (arraySort P cmp xs) = mset xs)"

text \<open>
  The session is sound when, reporting Locked, it holds neither a vault nor a
  master password (both are \<open>null\<close>) and, reporting Unlocked, it holds a vault. It
  is coherent when it is sound and, reporting Unlocked, holds a passphrase text
  as master password; a coherent session reports Unlocked exactly when both
  \<open>vault\<close> and \<open>masterPassword\<close> are non-null. A message carries a text when it is
  not a \<open>SETUP_VAULT\<close> or \<open>UNLOCK_VAULT\<close> whose \<open>masterPassword\<close> is \<open>null\<close> or
  absent.
\<close>

definition session_sound :: "background \<Rightarrow> bool" where
  "session_sound s =
     ((isUnlocked s \<longrightarrow> vault s \<noteq> None)
      \<and> (\<not> isUnlocked s \<longrightarrow> vault s = None \<and> masterPassword s = Null))"

definition coherent :: "background \<Rightarrow> bool" where
  "coherent s = (session_sound s \<and> (isUnlocked s \<longrightarrow> isText (masterPassword s)))"

definition carriesText :: "message \<Rightarrow> bool" where
  "carriesText m =
     (case m of
        SETUP_VAULT p \<Rightarrow> isText p
      | UNLOCK_VAULT p \<Rightarrow> isText p
      | _ \<Rightarrow> True)"

text \<open>The next \<open>n\<close> bytes of a generator from position \<open>off\<close>.\<close>

definition window :: "(nat \<Rightarrow> byte) \<Rightarrow> nat \<Rightarrow> nat \<Rightarrow> bytes" where
  "window rng off n = map rng [off..<off + n]"

section \<open>A small platform on which the assumptions hold\<close>

text \<open>
  A platform simple enough to run by rewriting, used to show that the hypotheses
  of the theorems can be met together and to run the handlers on concrete
  inputs. Keys are natural numbers: PBKDF2 and the raw import give the length of
  their input, Argon2 gives the encoded passphrase. A ciphertext is the key in
  unary, a zero byte, the nonce and the plaintext; decryption checks the key and
  the nonce. The JSON codec knows one document, the vault it is given. Case is
  mapped on the ASCII letters, the sort is a stable insertion sort that takes a
  \<open>NaN\<close> comparison for equality, and the remaining time is computed on integers.
\<close>

definition toy_lowerChar :: "char \<Rightarrow> char" where
  "toy_lowerChar c =
     (let n = (of_char c :: nat) in if 65 \<le> n \<and> n \<le> 90 then char_of (n + 32) else c)"

fun insertBy :: "('a \<Rightarrow> 'a \<Rightarrow> int option) \<Rightarrow> 'a \<Rightarrow> 'a list \<Rightarrow> 'a list" where
  "insertBy cmp x [] = [x]"
| "insertBy cmp x (y # ys) =
     (case cmp x y of
        Some d \<Rightarrow> (if d > 0 then y # insertBy cmp x ys else x # y # ys)
      | None \<Rightarrow> x # y # ys)"

definition sortBy :: "('a \<Rightarrow> 'a \<Rightarrow> int option) \<Rightarrow> 'a list \<Rightarrow> 'a list" where
  "sortBy cmp xs = foldr (insertBy cmp) xs []"

definition toy_remainingTime :: "int \<Rightarrow> nat \<Rightarrow> nat \<Rightarrow> remaining_time" where
  "toy_remainingTime delay now unlocked =
     (let r = max 0 (delay - (int now - int unlocked)); t = r div 1000
      in \<lparr>remaining = r, remainingMinutes = t div 60, remainingSeconds = t mod 60,
          totalSeconds = t\<rparr>)"

definition toy_encode :: "string \<Rightarrow> bytes" where
  "toy_encode s = map (\<lambda>c. word_of_nat (of_char c)) s"

definition toy_argon2 :: "argon2_call \<Rightarrow> bytes option" where
  "toy_argon2 a = Some (toy_encode (passphraseText (pass a)))"

definition toy_decode :: "bytes \<Rightarrow> string" where
  "toy_decode bs = map (\<lambda>w. char_of (unat w)) bs"

definition toy_encrypt :: "nat \<Rightarrow> bytes \<Rightarrow> bytes \<Rightarrow> bytes option" where
  "toy_encrypt k n pt = Some (replicate k 1 @ [0] @ n @ pt)"

definition toy_decrypt :: "nat \<Rightarrow> bytes \<Rightarrow> bytes \<Rightarrow> bytes option" where
  "toy_decrypt k n c =
     (let m = length (takeWhile (\<lambda>x. x = 1) c)
      in if m = k \<and> m < length c \<and> take (length n) (drop (Suc m) c) = n
         then Some (drop (Suc m + length n) c) else None)"

definition toy_platform :: "vault_data \<Rightarrow> nat platform" where
  "toy_platform V =
     \<lparr>textEncode = toy_encode,
      textDecode = toy_decode,
      jsonStringify = (\<lambda>v. if v = V then ''vault'' else ''other''),
      jsonParse = (\<lambda>t. if t = ''vault'' then Some V else None),
      deriveKey = (\<lambda>pw s n. Some (length pw)),
      importKey = (\<lambda>raw. Some (length raw)),
      encrypt = toy_encrypt,
      decrypt = toy_decrypt,
      argon2_hash = Some toy_argon2,
      argon2_argon2id = None,
      toLowerCase = map toy_lowerChar,
      arraySort = sortBy,
      remainingTime = toy_remainingTime,
      urlHostname = (\<lambda>u. None),
      toString36 = (\<lambda>r. ''0.5fx2k9q1zt''),
      sortRandomly = (\<lambda>t r. (t, r))\<rparr>"

definition sample_credential :: credential where
  "sample_credential =
     \<lparr>cred_id = Some ''1700000000000abc'', name = Some ''Gmail'',
      domain = Some ''gmail.com'', username = Some ''a@b.com'', password = Some ''x'',
      url = Some ''https://gmail.com'', email = None,
      created = Some 1700000000000, modified = Some 1700000000000\<rparr>"

definition sample_vault :: vault_data where
  "sample_vault =
     \<lparr>credentials = [sample_credential], vault_created = 1690000000000,
      vault_version = ''2.0'', security = Some ''enhanced-pbkdf2''\<rparr>"

definition sample_browser :: browser where
  "sample_browser =
     \<lparr>storage_vault = None, storage_setupCompleted = False, storage_autoLockDelay = None,
      storage_available = True, timeouts = [], nextTimeout = 1,
      random = (\<lambda>i. word_of_nat i), clock = (\<lambda>i. 1700000000500 + i),
      mathRandom = (\<lambda>i. 1 / 2), notified = []\<rparr>"

definition sample_unlocked :: background where
  "sample_unlocked =
     constructor\<lparr>vault := Some sample_vault, masterPassword := Text ''Secret123!'',
       isUnlocked := True\<rparr>"

text \<open>
  A browser whose storage already holds an envelope, a session whose auto-lock
  timer is armed, an update that supplies only the id and a new password, and a
  vault with a credential whose name is the empty text.
\<close>

definition sample_envelope :: envelope where
  "sample_envelope =
     \<lparr>encrypted = [7, 0, 9], salt = [1, 2], iv = [3, 4], version = ''2.0'',
      kdf = Some ''enhanced-pbkdf2'',
      kdfParams = Some \<lparr>kdf_time = None, kdf_memory = None, kdf_parallelism = None,
        kdf_hashLen = None, kdf_iterations = Some 250000\<rparr>\<rparr>"

definition sample_initialized :: browser where
  "sample_initialized =
     sample_browser\<lparr>storage_vault := Some sample_envelope, storage_setupCompleted := True\<rparr>"

definition sample_armed :: background where
  "sample_armed =
     sample_unlocked\<lparr>autoLockTimer := Some (TimeoutId 1), unlockTime := Some 1700000000400\<rparr>"

definition sample_armed_browser :: browser where
  "sample_armed_browser =
     sample_initialized\<lparr>timeouts := [(TimeoutId 1, 300000)], nextTimeout := 2\<rparr>"

definition sample_update :: credential where
  "sample_update =
     \<lparr>cred_id = Some ''1700000000000abc'', name = None, domain = None, username = None,
      password = Some ''y'', url = None, email = None, created = None, modified = None\<rparr>"

definition blank_name_credential :: credential where
  "blank_name_credential =
     \<lparr>cred_id = Some ''1700000000001xyz'', name = Some [], domain = Some ''a.com'',
      username = Some ''u'', password = Some ''p'', url = None, email = None,
      created = Some 1700000000001, modified = Some 1700000000001\<rparr>"

definition sample_unlocked_blank :: background where
  "sample_unlocked_blank =
     sample_unlocked\<lparr>vault := Some (sample_vault\<lparr>credentials := [blank_name_credential]\<rparr>)\<rparr>"





section \<open>The small platform meets the assumptions\<close>

lemma toy_takeWhile: "takeWhile (\<lambda>x. x = (1::byte)) (replicate k 1 @ 0 # xs) = replicate k 1"
  by (induction k) simp_all

lemma toy_aead_correct: "aead_correct (toy_platform V)"
  by (simp add: aead_correct_def toy_platform_def toy_encrypt_def toy_decrypt_def toy_takeWhile)




lemma byte_of_char: "unat (word_of_nat (of_char c) :: byte) = of_char c"
  using of_char_mod_256 [of c, where ?'a = nat] by (simp add: unat_of_nat del: of_char_mod_256)
lemma toy_decode_encode: "toy_decode (toy_encode s) = s"
  by (induction s) (simp_all add: toy_encode_def toy_decode_def byte_of_char)

lemma toy_serializable: "serializable (toy_platform V) V"
  by (simp add: serializable_def toy_platform_def toy_decode_encode)


lemma mset_insertBy: "mset (insertBy cmp x ys) = add_mset x (mset ys)"
  by (induction ys) (auto split: option.splits)

lemma mset_sortBy: "mset (sortBy cmp xs) = mset xs"
  by (induction xs) (simp_all add: sortBy_def mset_insertBy)

lemma toy_sort_permutes: "sort_permutes (toy_platform V)"
  by (simp add: sort_permutes_def toy_platform_def mset_sortBy)

section \<open>Round trip of encryption and decryption\<close>

lemma pbkdf2_roundtrip:
  assumes "aead_correct P" and "serializable P V"
    and "encryptDataWithEnhancedPBKDF2 P rng V pw = (Inr e, rng')"
  shows "decryptDataWithEnhancedPBKDF2 P e pw = Inr V"
proof -
  from assms(3) obtain key enc where
    k: "deriveKey P (textEncode P (passphraseText pw)) (salt e) 250000 = Some key" and
    c: "encrypt P key (iv e) (textEncode P (jsonStringify P V)) = Some enc" and
    e: "encrypted e = enc" "kdfParams e = Some \<lparr>kdf_time = None, kdf_memory = None,
          kdf_parallelism = None, kdf_hashLen = None, kdf_iterations = Some 250000\<rparr>"
    by (auto simp add: encryptDataWithEnhancedPBKDF2_def Let_def split_def
          split: option.splits)
  from assms(1) c have "decrypt P key (iv e) enc = Some (textEncode P (jsonStringify P V))"
    by (simp add: aead_correct_def)
  with k e assms(2) show ?thesis
    by (simp add: decryptDataWithEnhancedPBKDF2_def serializable_def)
qed

lemma pbkdf2_kdf:
  "encryptDataWithEnhancedPBKDF2 P rng V pw = (Inr e, rng') \<Longrightarrow> kdf e = Some ''enhanced-pbkdf2''"
  by (auto simp add: encryptDataWithEnhancedPBKDF2_def Let_def split_def split: option.splits)

lemma argon2_roundtrip:
  assumes "aead_correct P" and "serializable P V"
    and "encryptDataWithArgon2 P ap rng V pw = (Inr e, rng')"
  shows "decryptVault P True e pw = Inr V"
proof -
  let ?opts = "\<lparr>pass = pw, call_salt = fst (getRandomValues 32 rng),
                call_time = Some (time ap), call_mem = Some (mem ap),
                call_parallelism = Some (parallelism ap),
                call_hashLen = Some (hashLen ap)\<rparr>"
  let ?rng1 = "snd (getRandomValues 32 rng)"
  let ?rng2 = "snd (getRandomValues 12 ?rng1)"
  consider (fallback) r where "encryptDataWithEnhancedPBKDF2 P r V pw = (Inr e, rng')"
    | (direct) h k enc where "argon2Derive P ?opts = Some h" "importKey P h = Some k"
        "encrypt P k (fst (getRandomValues 12 ?rng1)) (textEncode P (jsonStringify P V)) = Some enc"
        "e = \<lparr>encrypted = enc, salt = fst (getRandomValues 32 rng),
              iv = fst (getRandomValues 12 ?rng1),
              version = ''2.0'', kdf = Some ''argon2id'',
              kdfParams = Some \<lparr>kdf_time = Some (time ap),
                kdf_memory = Some (mem ap),
                kdf_parallelism = Some (parallelism ap),
                kdf_hashLen = Some (hashLen ap),
                kdf_iterations = None\<rparr>\<rparr>"
    using assms(3)
    by (auto simp add: encryptDataWithArgon2_def Let_def split_def split: option.splits)
  then show ?thesis
  proof cases
    case fallback
    then show ?thesis
      using pbkdf2_roundtrip [OF assms(1,2)] pbkdf2_kdf
      by (fastforce simp add: decryptVault_def)
  next
    case direct
    from assms(1) direct(3)
    have "decrypt P k (iv e) (encrypted e) = Some (textEncode P (jsonStringify P V))"
      by (simp add: aead_correct_def direct(4))
    with direct assms(2) show ?thesis
      by (simp add: decryptVault_def decryptDataWithArgon2_def serializable_def)
  qed
qed


lemma encryptData_roundtrip:
  assumes "aead_correct P" and "serializable P V"
    and "encryptData P loaded ap rng V pw = (Inr e, rng')"
  shows "decryptVault P loaded e pw = Inr V"
proof (cases loaded)
  case True
  with assms show ?thesis
    using argon2_roundtrip [of P V ap rng pw e rng'] by (simp add: encryptData_def)
next
  case False
  with assms(3) have enc: "encryptDataWithEnhancedPBKDF2 P rng V pw = (Inr e, rng')"
    by (simp add: encryptData_def)
  from pbkdf2_roundtrip [OF assms(1,2) enc] pbkdf2_kdf [OF enc] show ?thesis
    by (simp add: decryptVault_def)
qed

text \<open>
  Claim C1. For every vault \<open>V\<close> that survives JSON serialization and every
  passphrase, decrypting with the same passphrase the envelope that encryption
  produced gives back \<open>V\<close> itself, so with every credential id and timestamp as
  it was: on the enhanced-PBKDF2 pair, and on \<open>encryptData\<close>/\<open>decryptVault\<close> for
  whichever derivation path the encryptor selects (Argon2id, or PBKDF2 directly
  or as the fallback), the session's \<open>argon2Loaded\<close> being the same at both ends.
\<close>

theorem encrypt_decrypt_round_trip:
  assumes "aead_correct P" and "serializable P V"
  shows "(encryptDataWithEnhancedPBKDF2 P rng V pw = (Inr e, rng')
            \<longrightarrow> decryptDataWithEnhancedPBKDF2 P e pw = Inr V)
       \<and> (encryptData P loaded ap rng V pw = (Inr e, rng')
            \<longrightarrow> decryptVault P loaded e pw = Inr V)"
  using assms pbkdf2_roundtrip encryptData_roundtrip by blast

theorem encrypt_decrypt_round_trip_witness:
  "aead_correct (toy_platform sample_vault)
   \<and> serializable (toy_platform sample_vault) sample_vault
   \<and> (\<exists>e r. encryptDataWithEnhancedPBKDF2 (toy_platform sample_vault)
               (random sample_browser) sample_vault (Text ''Secret123!'') = (Inr e, r)
          \<and> decryptDataWithEnhancedPBKDF2 (toy_platform sample_vault) e (Text ''Secret123!'')
              = Inr sample_vault
          \<and> credentials sample_vault = [sample_credential])"
proof -
  obtain e r where enc: "encryptDataWithEnhancedPBKDF2 (toy_platform sample_vault)
      (random sample_browser) sample_vault (Text ''Secret123!'') = (Inr e, r)"
    by (simp add: encryptDataWithEnhancedPBKDF2_def toy_platform_def toy_encrypt_def
          Let_def split_def)
  from encrypt_decrypt_round_trip [OF toy_aead_correct toy_serializable, of sample_vault
      "random sample_browser" "Text ''Secret123!''" e r] enc
  have "decryptDataWithEnhancedPBKDF2 (toy_platform sample_vault) e (Text ''Secret123!'')
          = Inr sample_vault"
    by simp
  with enc show ?thesis
    by (auto simp add: toy_aead_correct toy_serializable sample_vault_def)
qed

section \<open>Legacy envelopes\<close>

lemma v1_roundtrip:
  assumes "aead_correct P" and "serializable P V"
    and "encryptData_v1 P rng V pw = (Inr e, rng')"
  shows "kdf e = None \<and> decryptDataLegacy P e pw = Inr V"
proof -
  from assms(3) obtain key enc where
    k: "deriveKey P (textEncode P (passphraseText pw)) (salt e) 100000 = Some key" and
    c: "encrypt P key (iv e) (textEncode P (jsonStringify P V)) = Some enc" and
    e: "encrypted e = enc" "kdf e = None"
    by (auto simp add: encryptData_v1_def Let_def split_def split: option.splits)
  from assms(1) c have "decrypt P key (iv e) enc = Some (textEncode P (jsonStringify P V))"
    by (simp add: aead_correct_def)
  with k e assms(2) show ?thesis
    by (simp add: decryptDataLegacy_def serializable_def)
qed

lemma legacy_dispatch:
  "kdf e = None \<Longrightarrow> decryptVault P loaded e pw = decryptDataLegacy P e pw"
  by (simp add: decryptVault_def)

lemma legacy_only_pbkdf2_100000:
  "decryptDataLegacy
     (P\<lparr>deriveKey := (\<lambda>p s n. if n = 100000 then deriveKey P p s n else other p s n),
        importKey := ik, encrypt := en, argon2_hash := ah, argon2_argon2id := ai\<rparr>) e pw
   = decryptDataLegacy P e pw"
  by (simp add: decryptDataLegacy_def cong: option.case_cong)

text \<open>
  Claim C4. An envelope without a \<open>kdf\<close> tag is decrypted by the legacy scheme
  and by nothing else: \<open>decryptVault\<close> is \<open>decryptDataLegacy\<close> on it, whose result
  depends on the key derivation only through PBKDF2 at exactly 100000 iterations
  (changing PBKDF2 at every other iteration count, the raw key import and both
  Argon2 entry points changes nothing). Hence an envelope that the version 1.1
  encryptor made under a passphrase carries no tag and decrypts, under that
  passphrase, to the vault it was made from.
\<close>

theorem legacy_envelope_decrypts:
  assumes "aead_correct P" and "serializable P V"
    and "encryptData_v1 P rng V pw = (Inr e, rng')"
  shows "kdf e = None
       \<and> decryptVault P loaded e pw = Inr V
       \<and> (\<forall>e' pw' loaded'. kdf e' = None \<longrightarrow>
            decryptVault P loaded' e' pw' = decryptDataLegacy P e' pw'
            \<and> decryptDataLegacy
                 (P\<lparr>deriveKey :=
                       (\<lambda>p s n. if n = 100000 then deriveKey P p s n else other p s n),
                    importKey := ik, encrypt := en, argon2_hash := ah,
                    argon2_argon2id := ai\<rparr>) e' pw'
               = decryptDataLegacy P e' pw')"
proof -
  from v1_roundtrip [OF assms] have k: "kdf e = None" and d: "decryptDataLegacy P e pw = Inr V"
    by simp_all
  from k d have "decryptVault P loaded e pw = Inr V"
    by (simp add: legacy_dispatch)
  with k show ?thesis
    by (simp add: legacy_dispatch legacy_only_pbkdf2_100000)
qed

theorem legacy_envelope_decrypts_witness:
  "aead_correct (toy_platform sample_vault)
   \<and> serializable (toy_platform sample_vault) sample_vault
   \<and> (\<exists>e r. encryptData_v1 (toy_platform sample_vault)
               (random sample_browser) sample_vault (Text ''Secret123!'') = (Inr e, r)
          \<and> kdf e = None
          \<and> decryptVault (toy_platform sample_vault) True e (Text ''Secret123!'') = Inr sample_vault)"
proof -
  obtain e r where enc: "encryptData_v1 (toy_platform sample_vault)
      (random sample_browser) sample_vault (Text ''Secret123!'') = (Inr e, r)"
    by (simp add: encryptData_v1_def toy_platform_def toy_encrypt_def Let_def split_def)
  from legacy_envelope_decrypts [OF toy_aead_correct toy_serializable enc, of True]
  have "kdf e = None"
    and "decryptVault (toy_platform sample_vault) True e (Text ''Secret123!'') = Inr sample_vault"
    by simp_all
  with enc show ?thesis
    by (auto simp add: toy_aead_correct toy_serializable)
qed

section \<open>Wrong passphrase\<close>





section \<open>Draws from the generator; frame of the timer\<close>

lemma window_0: "fst (getRandomValues n rng) = window rng 0 n"
  by (simp add: getRandomValues_def window_def)

lemma window_shift: "window (\<lambda>i. rng (i + k)) off n = window rng (off + k) n"
proof -
  have "map (\<lambda>i. rng (i + k)) [off..<off + n] = map rng (map (\<lambda>i. i + k) [off..<off + n])"
    by simp
  also have "map (\<lambda>i. i + k) [off..<off + n] = [off + k..<off + k + n]"
    using map_add_upt [of k "n"] by (induction n) simp_all
  finally show ?thesis by (simp add: window_def)
qed

lemma length_window: "length (window rng off n) = n"
  by (simp add: window_def)


lemma draws_44:
  "window (snd (getRandomValues 32 rng)) 0 12 = window rng 32 12"
  "snd (getRandomValues 12 (snd (getRandomValues 32 rng))) = (\<lambda>i. rng (i + 44))"
  using window_shift [of rng 32 0 12] by (simp_all add: getRandomValues_def add.assoc)

lemma startAutoLockTimer_keeps:
  "vault (fst (startAutoLockTimer s b)) = vault s
   \<and> isUnlocked (fst (startAutoLockTimer s b)) = isUnlocked s
   \<and> masterPassword (fst (startAutoLockTimer s b)) = masterPassword s"
  by (simp add: startAutoLockTimer_def Let_def split_def split: option.splits)

lemma startAutoLockTimer_storage:
  "storage_vault (snd (startAutoLockTimer s b)) = storage_vault b
   \<and> storage_setupCompleted (snd (startAutoLockTimer s b)) = storage_setupCompleted b"
  by (simp add: startAutoLockTimer_def Let_def split_def setTimeout_def dateNow_def
        clearTimeout_def split: option.splits)





section \<open>Unlocking with another passphrase\<close>




section \<open>Fresh salt and nonce\<close>












section \<open>Locking\<close>

text \<open>
  Claim C6. \<open>lockVault\<close> can be called in every state and always answers
  \<open>{success: true}\<close>. After one call the session is Locked: \<open>vault\<close>,
  \<open>masterPassword\<close>, \<open>unlockTime\<close> and \<open>autoLockTimer\<close> are null, \<open>isUnlocked\<close> is
  false, and the timeout the session held is no longer pending. A second call
  returns success again and leaves exactly that session, with the same pending
  timeouts and the same storage; it only broadcasts \<open>VAULT_LOCKED\<close> once more.
\<close>

theorem lock_idempotent:
  assumes "lockVault s b = (r1, s1, b1)" and "lockVault s1 b1 = (r2, s2, b2)"
  shows "r1 = Success \<and> r2 = Success
       \<and> \<not> isUnlocked s1 \<and> vault s1 = None \<and> masterPassword s1 = Null
       \<and> unlockTime s1 = None \<and> autoLockTimer s1 = None
       \<and> timeouts b1 = filter (\<lambda>p. Some (fst p) \<noteq> autoLockTimer s) (timeouts b)
       \<and> s2 = s1
       \<and> b2 = b1\<lparr>notified := notified b1 @ [''VAULT_LOCKED'']\<rparr>"
proof -
  from assms(1) have first: "r1 = Success \<and> \<not> isUnlocked s1 \<and> vault s1 = None
      \<and> masterPassword s1 = Null \<and> unlockTime s1 = None \<and> autoLockTimer s1 = None
      \<and> timeouts b1 = filter (\<lambda>p. Some (fst p) \<noteq> autoLockTimer s) (timeouts b)"
    by (auto simp add: lockVault_def Let_def notifyContentScripts_def clearTimeout_def
          split: option.splits)
  with assms(2) have "r2 = Success \<and> s2 = s1
      \<and> b2 = b1\<lparr>notified := notified b1 @ [''VAULT_LOCKED'']\<rparr>"
    by (auto simp add: lockVault_def Let_def notifyContentScripts_def)
  with first show ?thesis by simp
qed

theorem lock_idempotent_witness:
  "\<exists>r1 s1 b1 r2 s2 b2.
     lockVault sample_armed sample_armed_browser = (r1, s1, b1)
   \<and> lockVault s1 b1 = (r2, s2, b2)
   \<and> isUnlocked sample_armed
   \<and> timeouts sample_armed_browser = [(TimeoutId 1, 300000)]
   \<and> r1 = Success \<and> r2 = Success \<and> \<not> isUnlocked s1 \<and> vault s1 = None
   \<and> masterPassword s1 = Null \<and> unlockTime s1 = None \<and> autoLockTimer s1 = None
   \<and> timeouts b1 = [] \<and> s2 = s1"
proof -
  obtain r1 s1 b1 where l1: "lockVault sample_armed sample_armed_browser = (r1, s1, b1)"
    by (cases "lockVault sample_armed sample_armed_browser") auto
  obtain r2 s2 b2 where l2: "lockVault s1 b1 = (r2, s2, b2)"
    by (cases "lockVault s1 b1") auto
  from lock_idempotent [OF l1 l2]
  have "r1 = Success \<and> r2 = Success \<and> \<not> isUnlocked s1 \<and> vault s1 = None
      \<and> masterPassword s1 = Null \<and> unlockTime s1 = None \<and> autoLockTimer s1 = None
      \<and> timeouts b1 = [] \<and> s2 = s1"
    by (simp add: sample_armed_def sample_armed_browser_def sample_initialized_def
          sample_browser_def)
  with l1 l2 show ?thesis
    by (simp add: sample_armed_def sample_unlocked_def sample_armed_browser_def)
qed

section \<open>Operations on a session that is not unlocked\<close>

text \<open>
  Claim C7. In every session that is not Unlocked (\<open>isUnlocked\<close> false, or no
  vault held), \<open>saveCredential\<close>, \<open>updateCredential\<close> and \<open>deleteCredential\<close> answer
  \<open>{error: 'Vault is locked'}\<close> and leave the session, the stored envelope and the
  rest of the browser state as they were; \<open>getCredentials\<close>, \<open>getAllCredentials\<close>
  and \<open>searchCredentials\<close> answer with an empty list of credentials, not an error.
\<close>

theorem locked_session_refuses:
  assumes "\<not> isUnlocked s \<or> vault s = None"
  shows "saveCredential P c s b = (Failure (Msg ''Vault is locked''), s, b)
       \<and> updateCredential P c s b = (Failure (Msg ''Vault is locked''), s, b)
       \<and> deleteCredential P i s b = (Failure (Msg ''Vault is locked''), s, b)
       \<and> getCredentials P d s = Credentials []
       \<and> getAllCredentials P s = Credentials []
       \<and> searchCredentials P q s = Credentials []"
  using assms
  by (auto simp add: saveCredential_def updateCredential_def deleteCredential_def
        getCredentials_def getAllCredentials_def searchCredentials_def
        split: bool.splits option.splits)

theorem locked_session_refuses_witness:
  "\<not> isUnlocked constructor
   \<and> saveCredential (toy_platform sample_vault) sample_credential constructor sample_initialized
       = (Failure (Msg ''Vault is locked''), constructor, sample_initialized)
   \<and> updateCredential (toy_platform sample_vault) sample_update constructor sample_initialized
       = (Failure (Msg ''Vault is locked''), constructor, sample_initialized)
   \<and> deleteCredential (toy_platform sample_vault) ''1700000000000abc'' constructor
         sample_initialized
       = (Failure (Msg ''Vault is locked''), constructor, sample_initialized)
   \<and> getCredentials (toy_platform sample_vault) ''gmail.com'' constructor = Credentials []
   \<and> getAllCredentials (toy_platform sample_vault) constructor = Credentials []
   \<and> searchCredentials (toy_platform sample_vault) ''gmail'' constructor = Credentials []"
proof -
  have locked: "\<not> isUnlocked constructor \<or> vault constructor = None"
    by (simp add: constructor_def)
  from locked_session_refuses [OF locked, of "toy_platform sample_vault" sample_credential
      sample_initialized _ "''gmail.com''" "''gmail''"]
    locked_session_refuses [OF locked, of "toy_platform sample_vault" sample_update
      sample_initialized "''1700000000000abc''"]
  show ?thesis
    by (simp add: constructor_def)
qed

section \<open>Setting up over an existing vault\<close>

lemma toy_setup_env:
  "encryptData (toy_platform sample_vault) False ap rng V pw
   = (Inr \<lparr>encrypted = replicate (length (passphraseText pw)) 1 @ [0] @ window rng 32 12
              @ toy_encode (if V = sample_vault then ''vault'' else ''other''),
            salt = window rng 0 32, iv = window rng 32 12, version = ''2.0'',
            kdf = Some ''enhanced-pbkdf2'',
            kdfParams = Some \<lparr>kdf_time = None, kdf_memory = None, kdf_parallelism = None,
              kdf_hashLen = None, kdf_iterations = Some 250000\<rparr>\<rparr>, \<lambda>i. rng (i + 44))"
proof -
  show ?thesis
    by (simp add: encryptData_def encryptDataWithEnhancedPBKDF2_def toy_platform_def
          toy_encrypt_def toy_encode_def Let_def split_def window_0 draws_44)
qed

lemma pbkdf2_error:
  "encryptDataWithEnhancedPBKDF2 P rng V pw = (Inl e, rng') \<Longrightarrow> e = OperationErrorMsg"
  by (auto simp add: encryptDataWithEnhancedPBKDF2_def Let_def split_def split: option.splits)

lemma encryptData_error:
  "encryptData P loaded ap rng V pw = (Inl e, rng') \<Longrightarrow> e = OperationErrorMsg"
  by (auto simp add: encryptData_def encryptDataWithArgon2_def Let_def split_def
        split: option.splits if_splits dest: pbkdf2_error)

lemma setupVault_success:
  assumes "storage_available b"
    and "encryptData P (argon2Loaded s) (argon2Params s) (random b)
           \<lparr>credentials = [], vault_created = clock b 0, vault_version = ''2.0'',
            security = Some (if argon2Loaded s then ''argon2id'' else ''enhanced-pbkdf2'')\<rparr> pw
         = (Inr enc, rng')"
  shows "fst (setupVault P pw s b)
           = SetupSuccess (if argon2Loaded s then ''argon2id'' else ''enhanced-pbkdf2'')
       \<and> storage_vault (snd (snd (setupVault P pw s b))) = Some enc
       \<and> storage_setupCompleted (snd (snd (setupVault P pw s b)))
       \<and> isUnlocked (fst (snd (setupVault P pw s b)))
       \<and> vault (fst (snd (setupVault P pw s b)))
           = Some \<lparr>credentials = [], vault_created = clock b 0, vault_version = ''2.0'',
               security = Some (if argon2Loaded s then ''argon2id'' else ''enhanced-pbkdf2'')\<rparr>
       \<and> masterPassword (fst (snd (setupVault P pw s b))) = pw"
proof -
  have d: "random (snd (dateNow b)) = random b" "fst (dateNow b) = clock b 0"
    "storage_available (snd (dateNow b)\<lparr>random := r\<rparr>) = storage_available b" for r
    by (simp_all add: dateNow_def)
  show ?thesis
    using assms
    by (simp add: setupVault_def Let_def split_def d startAutoLockTimer_keeps
          startAutoLockTimer_storage notifyContentScripts_def)
qed

lemma setupVault_failure_message:
  "fst (setupVault P pw s b) \<noteq> Failure (Msg m)"
proof -
  obtain res rng' where e: "encryptData P (argon2Loaded s) (argon2Params s)
      (random (snd (dateNow b)))
      \<lparr>credentials = [], vault_created = fst (dateNow b), vault_version = ''2.0'',
       security = Some (if argon2Loaded s then ''argon2id'' else ''enhanced-pbkdf2'')\<rparr> pw
      = (res, rng')"
    by (cases "encryptData P (argon2Loaded s) (argon2Params s)
      (random (snd (dateNow b)))
      \<lparr>credentials = [], vault_created = fst (dateNow b), vault_version = ''2.0'',
       security = Some (if argon2Loaded s then ''argon2id'' else ''enhanced-pbkdf2'')\<rparr> pw")
  show ?thesis
  proof (cases res)
    case (Inl err)
    with e encryptData_error have "err = OperationErrorMsg" by blast
    with e Inl show ?thesis
      by (simp add: setupVault_def Let_def split_def)
  next
    case (Inr enc)
    with e show ?thesis
      by (simp add: setupVault_def Let_def split_def)
  qed
qed

theorem setup_over_existing_vault_counterexample:
  "storage_vault sample_initialized = Some sample_envelope
   \<and> fst (setupVault (toy_platform sample_vault) (Text ''Another1!'') constructor sample_initialized)
       = SetupSuccess ''enhanced-pbkdf2''
   \<and> storage_vault (snd (snd (setupVault (toy_platform sample_vault) (Text ''Another1!'')
         constructor sample_initialized))) \<noteq> Some sample_envelope"
proof -
  have a: "argon2Loaded constructor = False" "storage_available sample_initialized"
    by (simp_all add: constructor_def sample_initialized_def sample_browser_def)
  have ne: "enc \<noteq> sample_envelope" if "salt enc = window rng 0 32" for enc rng
  proof
    assume "enc = sample_envelope"
    with that have "length (salt sample_envelope) = length (window rng 0 32)" by simp
    then show False by (simp add: sample_envelope_def length_window)
  qed
  from setupVault_success [OF a(2), of "toy_platform sample_vault" constructor
      "Text ''Another1!''"] ne
  show ?thesis
    by (simp add: a(1) toy_setup_env sample_initialized_def)
qed

text \<open>
  Claim C3, as amended. \<open>setupVault\<close> makes no check for an existing envelope and
  has no \<open>AlreadyInitialized\<close> answer: none of its error answers carries a message
  written in the source. Whatever storage holds, when the encryption of the new
  empty vault succeeds and storage accepts the write, the stored envelope is
  replaced by the new one, \<open>setupCompleted\<close> is set, the answer is success with the
  security tag, and the session is Unlocked holding the new empty vault and the
  given passphrase.
\<close>

theorem setup_replaces_stored_envelope:
  assumes "storage_vault b = Some old"
    and "storage_available b"
    and "encryptData P (argon2Loaded s) (argon2Params s) (random b)
           \<lparr>credentials = [], vault_created = clock b 0, vault_version = ''2.0'',
            security = Some (if argon2Loaded s then ''argon2id'' else ''enhanced-pbkdf2'')\<rparr> pw
         = (Inr enc, rng')"
  shows "fst (setupVault P pw s b)
           = SetupSuccess (if argon2Loaded s then ''argon2id'' else ''enhanced-pbkdf2'')
       \<and> storage_vault (snd (snd (setupVault P pw s b))) = Some enc
       \<and> storage_setupCompleted (snd (snd (setupVault P pw s b)))
       \<and> isUnlocked (fst (snd (setupVault P pw s b)))
       \<and> vault (fst (snd (setupVault P pw s b)))
           = Some \<lparr>credentials = [], vault_created = clock b 0, vault_version = ''2.0'',
               security = Some (if argon2Loaded s then ''argon2id'' else ''enhanced-pbkdf2'')\<rparr>
       \<and> masterPassword (fst (snd (setupVault P pw s b))) = pw
       \<and> fst (setupVault P pw s b) \<noteq> Failure (Msg m)"
  using setupVault_success [OF assms(2,3)] setupVault_failure_message [of P pw s b m]
  by simp

theorem setup_replaces_stored_envelope_witness:
  "storage_vault sample_initialized = Some sample_envelope
   \<and> storage_available sample_initialized
   \<and> (\<exists>enc. fst (setupVault (toy_platform sample_vault) (Text ''Another1!'') constructor
                 sample_initialized) = SetupSuccess ''enhanced-pbkdf2''
        \<and> storage_vault (snd (snd (setupVault (toy_platform sample_vault) (Text ''Another1!'')
             constructor sample_initialized))) = Some enc
        \<and> salt enc = window (random sample_initialized) 0 32
        \<and> isUnlocked (fst (snd (setupVault (toy_platform sample_vault) (Text ''Another1!'')
             constructor sample_initialized))))"
proof -
  have a: "argon2Loaded constructor = False" "storage_available sample_initialized"
    "storage_vault sample_initialized = Some sample_envelope"
    by (simp_all add: constructor_def sample_initialized_def sample_browser_def)
  from setup_replaces_stored_envelope [OF a(3) a(2), of "toy_platform sample_vault"
      constructor "Text ''Another1!''"]
  show ?thesis
    by (simp add: a toy_setup_env)
qed

section \<open>Soundness and coherence of the session\<close>

lemma sound_setupVault:
  "session_sound s \<Longrightarrow> session_sound (fst (snd (setupVault P pw s b)))"
  by (simp add: setupVault_def Let_def split_def session_sound_def startAutoLockTimer_keeps
        split: sum.splits)

lemma sound_unlockVault:
  "session_sound s \<Longrightarrow> session_sound (fst (snd (unlockVault P pw s b)))"
  by (simp add: unlockVault_def Let_def split_def session_sound_def startAutoLockTimer_keeps
        split: sum.splits option.splits)

lemma sound_lockVault: "session_sound (fst (snd (lockVault s b)))"
  by (simp add: lockVault_def Let_def split_def session_sound_def split: option.splits)

lemma sound_saveCredential:
  "session_sound s \<Longrightarrow> session_sound (fst (snd (saveCredential P c s b)))"
  by (simp add: saveCredential_def Let_def split_def session_sound_def
        split: sum.splits option.splits bool.splits)

lemma sound_deleteCredential:
  "session_sound s \<Longrightarrow> session_sound (fst (snd (deleteCredential P i s b)))"
  by (simp add: deleteCredential_def Let_def split_def session_sound_def
        split: sum.splits option.splits bool.splits)

lemma sound_updateCredential:
  "session_sound s \<Longrightarrow> session_sound (fst (snd (updateCredential P c s b)))"
  by (simp add: updateCredential_def Let_def split_def session_sound_def
        split: sum.splits option.splits bool.splits)

lemma sound_updateAutoLock:
  "session_sound s \<Longrightarrow> session_sound (fst (snd (updateAutoLock d s b)))"
  by (simp add: updateAutoLock_def Let_def split_def session_sound_def startAutoLockTimer_keeps)

lemma sound_handleMessage:
  "session_sound s \<Longrightarrow> session_sound (fst (snd (handleMessage P m s b)))"
  by (cases m)
    (simp_all add: sound_setupVault sound_unlockVault sound_lockVault
       sound_saveCredential sound_deleteCredential sound_updateCredential
       sound_updateAutoLock split_def Let_def)

lemma sound_timeoutFires:
  "session_sound s \<Longrightarrow> session_sound (fst (timeoutFires t s b))"
  using sound_lockVault [of s "clearTimeout t b"]
  by (simp add: timeoutFires_def split_def)

text \<open>
  What a handler can do to the master password: keep it, store the passphrase of
  a \<open>SETUP_VAULT\<close> or \<open>UNLOCK_VAULT\<close> message, or, leaving a Locked session, set it
  to \<open>null\<close>.
\<close>

lemma password_setupVault:
  "masterPassword (fst (snd (setupVault P pw s b))) = masterPassword s
   \<and> isUnlocked (fst (snd (setupVault P pw s b))) = isUnlocked s
   \<or> masterPassword (fst (snd (setupVault P pw s b))) = pw"
  by (simp add: setupVault_def Let_def split_def startAutoLockTimer_keeps split: sum.splits)

lemma password_unlockVault:
  "masterPassword (fst (snd (unlockVault P pw s b))) = masterPassword s
   \<and> isUnlocked (fst (snd (unlockVault P pw s b))) = isUnlocked s
   \<or> masterPassword (fst (snd (unlockVault P pw s b))) = pw"
  by (simp add: unlockVault_def Let_def split_def startAutoLockTimer_keeps
        split: sum.splits option.splits)

lemma password_kept:
  "masterPassword (fst (snd (saveCredential P c s b))) = masterPassword s
   \<and> isUnlocked (fst (snd (saveCredential P c s b))) = isUnlocked s"
  "masterPassword (fst (snd (deleteCredential P i s b))) = masterPassword s
   \<and> isUnlocked (fst (snd (deleteCredential P i s b))) = isUnlocked s"
  "masterPassword (fst (snd (updateCredential P c s b))) = masterPassword s
   \<and> isUnlocked (fst (snd (updateCredential P c s b))) = isUnlocked s"
  "masterPassword (fst (snd (updateAutoLock d s b))) = masterPassword s
   \<and> isUnlocked (fst (snd (updateAutoLock d s b))) = isUnlocked s"
  by (simp_all add: saveCredential_def deleteCredential_def updateCredential_def
        updateAutoLock_def Let_def split_def startAutoLockTimer_keeps
        split: sum.splits option.splits bool.splits)

lemma locked_lockVault: "\<not> isUnlocked (fst (snd (lockVault s b)))"
  by (simp add: lockVault_def Let_def split_def split: option.splits)

lemma text_handleMessage:
  assumes "isUnlocked s \<longrightarrow> isText (masterPassword s)" and "carriesText m"
  shows "isUnlocked (fst (snd (handleMessage P m s b)))
         \<longrightarrow> isText (masterPassword (fst (snd (handleMessage P m s b))))"
proof (cases m)
  case (SETUP_VAULT pw)
  with assms password_setupVault [of P pw s b] show ?thesis
    by (auto simp add: carriesText_def)
next
  case (UNLOCK_VAULT pw)
  with assms password_unlockVault [of P pw s b] show ?thesis
    by (auto simp add: carriesText_def)
next
  case LOCK_VAULT
  then show ?thesis by (simp add: locked_lockVault)
qed (use assms(1) in \<open>simp_all add: password_kept split_def Let_def\<close>)

lemma coherent_handleMessage:
  "coherent s \<Longrightarrow> carriesText m \<Longrightarrow> coherent (fst (snd (handleMessage P m s b)))"
  using sound_handleMessage [of s P m b] text_handleMessage [of s m P b]
  by (simp add: coherent_def)

lemma coherent_timeoutFires:
  "coherent s \<Longrightarrow> coherent (fst (timeoutFires t s b))"
  using sound_timeoutFires [of s t b] locked_lockVault [of s "clearTimeout t b"]
  by (simp add: coherent_def timeoutFires_def split_def)

lemma coherent_init: "coherent (init loaded constructor b)"
  by (simp add: init_def loadSettings_def coherent_def session_sound_def constructor_def)

lemma coherent_iff:
  "coherent s \<Longrightarrow> isUnlocked s = (vault s \<noteq> None \<and> masterPassword s \<noteq> Null)"
  by (cases "masterPassword s") (auto simp add: coherent_def session_sound_def isText_def)

theorem null_passphrase_unlocks_counterexample:
  "isUnlocked constructor = (vault constructor \<noteq> None \<and> masterPassword constructor \<noteq> Null)
   \<and> isUnlocked (fst (snd (handleMessage (toy_platform sample_vault) (SETUP_VAULT Null)
        constructor sample_browser)))
   \<and> vault (fst (snd (handleMessage (toy_platform sample_vault) (SETUP_VAULT Null)
        constructor sample_browser))) \<noteq> None
   \<and> masterPassword (fst (snd (handleMessage (toy_platform sample_vault) (SETUP_VAULT Null)
        constructor sample_browser))) = Null"
proof -
  have a: "argon2Loaded constructor = False" "storage_available sample_browser"
    by (simp_all add: constructor_def sample_browser_def)
  from setupVault_success [OF a(2), of "toy_platform sample_vault" constructor Null]
  show ?thesis
    by (simp add: a(1) toy_setup_env) (simp add: constructor_def)
qed

text \<open>
  Claim C10, as amended. After construction and \<open>init\<close> the session is coherent.
  Every message handler, run to completion, and the auto-lock timeout keep the
  session sound: while it reports Locked, \<open>vault\<close> and \<open>masterPassword\<close> are both
  \<open>null\<close>, so no decrypted vault and no master password stay in memory, and while
  it reports Unlocked it holds a vault. The handlers store \<open>message.masterPassword\<close>
  unchecked; as long as every \<open>SETUP_VAULT\<close> and \<open>UNLOCK_VAULT\<close> message carries a
  passphrase text the session stays coherent, and a coherent session reports
  Unlocked exactly when \<open>vault\<close> and \<open>masterPassword\<close> are both non-null.
\<close>

theorem session_stays_coherent:
  "coherent constructor
   \<and> coherent (init loaded constructor b0)
   \<and> (session_sound s \<longrightarrow>
        session_sound (fst (snd (handleMessage P m s b)))
        \<and> session_sound (fst (timeoutFires t s b)))
   \<and> (coherent s \<and> carriesText m \<longrightarrow> coherent (fst (snd (handleMessage P m s b))))
   \<and> (coherent s \<longrightarrow>
        coherent (fst (timeoutFires t s b))
        \<and> isUnlocked s = (vault s \<noteq> None \<and> masterPassword s \<noteq> Null))"
proof -
  have "coherent constructor"
    by (simp add: coherent_def session_sound_def constructor_def)
  then show ?thesis
    using coherent_handleMessage [of s m P b] coherent_timeoutFires [of s t b]
      coherent_init [of loaded b0] sound_handleMessage [of s P m b]
      sound_timeoutFires [of s t b] coherent_iff [of s]
    by blast
qed

theorem session_stays_coherent_witness:
  "coherent constructor
   \<and> carriesText (SETUP_VAULT (Text ''Secret123!''))
   \<and> coherent (fst (snd (handleMessage (toy_platform sample_vault)
        (SETUP_VAULT (Text ''Secret123!'')) constructor sample_browser)))
   \<and> isUnlocked (fst (snd (handleMessage (toy_platform sample_vault)
        (SETUP_VAULT (Text ''Secret123!'')) constructor sample_browser)))
   \<and> coherent sample_armed
   \<and> isUnlocked sample_armed
   \<and> session_sound (fst (snd (handleMessage (toy_platform sample_vault) LOCK_VAULT
        sample_armed sample_armed_browser)))
   \<and> \<not> isUnlocked (fst (snd (handleMessage (toy_platform sample_vault) LOCK_VAULT
        sample_armed sample_armed_browser)))
   \<and> vault (fst (snd (handleMessage (toy_platform sample_vault) LOCK_VAULT
        sample_armed sample_armed_browser))) = None
   \<and> masterPassword (fst (snd (handleMessage (toy_platform sample_vault) LOCK_VAULT
        sample_armed sample_armed_browser))) = Null"
proof -
  let ?P = "toy_platform sample_vault"
  let ?m = "SETUP_VAULT (Text ''Secret123!'')"
  note T1 = session_stays_coherent [where loaded = True and ?b0.0 = sample_browser
      and s = constructor and P = ?P and m = ?m and b = sample_browser and t = "TimeoutId 0"]
  note T2 = session_stays_coherent [where loaded = True and ?b0.0 = sample_browser
      and s = sample_armed and P = ?P and m = LOCK_VAULT and b = sample_armed_browser
      and t = "TimeoutId 0"]
  have c0: "coherent constructor"
    using T1 [THEN conjunct1] .
  have ct: "carriesText ?m"
    by (simp add: carriesText_def isText_def)
  have c1: "coherent (fst (snd (handleMessage ?P ?m constructor sample_browser)))"
    using T1 [THEN conjunct2, THEN conjunct2, THEN conjunct2, THEN conjunct1, THEN mp,
        OF conjI [OF c0 ct]] .
  have a: "argon2Loaded constructor = False" "storage_available sample_browser"
    by (simp_all add: constructor_def sample_browser_def)
  have u: "isUnlocked (fst (snd (handleMessage ?P ?m constructor sample_browser)))"
    using setupVault_success [OF a(2), of ?P constructor "Text ''Secret123!''"]
    by (simp add: a(1) toy_setup_env)
  have c2: "coherent sample_armed" "isUnlocked sample_armed"
    by (simp_all add: coherent_def session_sound_def isText_def sample_armed_def
          sample_unlocked_def constructor_def)
  then have s2: "session_sound sample_armed"
    by (simp add: coherent_def)
  have l: "session_sound (fst (snd (handleMessage ?P LOCK_VAULT sample_armed
        sample_armed_browser)))"
    using T2 [THEN conjunct2, THEN conjunct2, THEN conjunct1, THEN mp, OF s2, THEN conjunct1] .
  have n: "\<not> isUnlocked (fst (snd (handleMessage ?P LOCK_VAULT sample_armed
        sample_armed_browser)))"
    by (simp add: locked_lockVault)
  with l have "vault (fst (snd (handleMessage ?P LOCK_VAULT sample_armed
        sample_armed_browser))) = None
      \<and> masterPassword (fst (snd (handleMessage ?P LOCK_VAULT sample_armed
        sample_armed_browser))) = Null"
    unfolding session_sound_def by blast
  with c0 ct c1 u c2 l n show ?thesis
    by (intro conjI) simp_all
qed

section \<open>Updating a credential\<close>

lemma findIndex_Some:
  "findIndex p xs = Some i \<Longrightarrow> i < length xs \<and> p (xs ! i) \<and> (\<forall>j<i. \<not> p (xs ! j))"
proof (induction xs arbitrary: i)
  case Nil
  then show ?case by simp
next
  case (Cons x xs)
  show ?case
  proof (cases "p x")
    case True
    with Cons.prems show ?thesis by simp
  next
    case False
    with Cons.prems obtain k where k: "findIndex p xs = Some k" "i = Suc k"
      by (auto split: option.splits)
    from Cons.IH [OF k(1)] False k(2) show ?thesis
      by (auto simp add: less_Suc_eq_0_disj)
  qed
qed

lemma findIndex_None: "findIndex p xs = None \<Longrightarrow> x \<in> set xs \<Longrightarrow> \<not> p x"
  by (induction xs) (auto split: option.splits if_splits)

lemma findIndex_exists: "\<exists>x\<in>set xs. p x \<Longrightarrow> \<exists>i. findIndex p xs = Some i"
  using findIndex_None [of p xs] by (cases "findIndex p xs") auto

lemma updateCredential_found:
  assumes "isUnlocked s" and "vault s = Some v"
    and "findIndex (\<lambda>cred. cred_id cred = cred_id c) (credentials v) = Some i"
  shows "fst (snd (updateCredential P c s b))
         = s\<lparr>vault := Some (v\<lparr>credentials :=
               (credentials v)[i := c\<lparr>modified := Some (clock b 0)\<rparr>]\<rparr>)\<rparr>"
  using assms
  by (simp add: updateCredential_def Let_def split_def dateNow_def split: sum.splits)

lemma toy_persist:
  assumes "storage_available b"
  shows "\<exists>enc b'. persistVault (toy_platform sample_vault) v
           (s\<lparr>argon2Loaded := False\<rparr>) b = (Inr enc, b')"
  using assms
  by (simp add: persistVault_def toy_setup_env Let_def split_def)

theorem update_drops_unsupplied_fields_counterexample:
  "isUnlocked sample_unlocked
   \<and> vault sample_unlocked = Some sample_vault
   \<and> credentials sample_vault = [sample_credential]
   \<and> cred_id sample_update = cred_id sample_credential
   \<and> created sample_credential = Some 1700000000000
   \<and> name sample_credential = Some ''Gmail''
   \<and> created sample_update = None
   \<and> name sample_update = None
   \<and> fst (updateCredential (toy_platform sample_vault) sample_update sample_unlocked
        sample_initialized) = Success
   \<and> vault (fst (snd (updateCredential (toy_platform sample_vault) sample_update
        sample_unlocked sample_initialized)))
      = Some (sample_vault\<lparr>credentials := [sample_update\<lparr>modified := Some 1700000000500\<rparr>]\<rparr>)
   \<and> created (sample_update\<lparr>modified := Some 1700000000500\<rparr>) = None
   \<and> name (sample_update\<lparr>modified := Some 1700000000500\<rparr>) = None"
proof -
  have u: "isUnlocked sample_unlocked" "vault sample_unlocked = Some sample_vault"
    by (simp_all add: sample_unlocked_def)
  have i: "findIndex (\<lambda>cred. cred_id cred = cred_id sample_update) (credentials sample_vault)
           = Some 0"
    by (simp add: sample_vault_def sample_credential_def sample_update_def)
  have c: "clock sample_initialized 0 = 1700000000500"
    by (simp add: sample_initialized_def sample_browser_def)
  have v: "vault (fst (snd (updateCredential (toy_platform sample_vault) sample_update
        sample_unlocked sample_initialized)))
      = Some (sample_vault\<lparr>credentials := [sample_update\<lparr>modified := Some 1700000000500\<rparr>]\<rparr>)"
    using updateCredential_found [OF u i, of "toy_platform sample_vault" sample_initialized]
    by (simp add: c sample_vault_def)
  have a: "storage_available (snd (dateNow sample_initialized))"
    by (simp add: dateNow_def sample_initialized_def sample_browser_def)
  have l: "sample_unlocked\<lparr>vault := w\<rparr> = (sample_unlocked\<lparr>vault := w\<rparr>)\<lparr>argon2Loaded := False\<rparr>"
    for w
    by (simp add: sample_unlocked_def constructor_def)
  have r: "fst (updateCredential (toy_platform sample_vault) sample_update sample_unlocked
        sample_initialized) = Success"
  proof -
    obtain enc b' where "persistVault (toy_platform sample_vault)
        (sample_vault\<lparr>credentials := (credentials sample_vault)
           [0 := sample_update\<lparr>modified := Some (fst (dateNow sample_initialized))\<rparr>]\<rparr>)
        (sample_unlocked\<lparr>vault := Some (sample_vault\<lparr>credentials := (credentials sample_vault)
           [0 := sample_update\<lparr>modified := Some (fst (dateNow sample_initialized))\<rparr>]\<rparr>)\<rparr>)
        (snd (dateNow sample_initialized)) = (Inr enc, b')"
      using toy_persist [OF a] l by metis
    then show ?thesis
      using u i by (simp add: updateCredential_def Let_def split_def)
  qed
  from u v r show ?thesis
    by (simp add: sample_vault_def sample_credential_def sample_update_def)
qed

text \<open>
  Claim C8, as amended. For every unlocked vault and every credential whose id is
  present in it, \<open>updateCredential\<close> replaces the first stored credential with that
  id by the supplied credential object, with \<open>modified\<close> set to the current time.
  The id is thereby unchanged and every other stored credential is untouched;
  \<open>created\<close> and every other field of the replaced credential take the supplied
  value, so a field is kept only when the update supplies it again.
\<close>

theorem update_replaces_credential:
  assumes "isUnlocked s" and "vault s = Some v"
    and "cred_id c \<in> cred_id ` set (credentials v)"
  shows "\<exists>i. i < length (credentials v)
           \<and> cred_id (credentials v ! i) = cred_id c
           \<and> (\<forall>j<i. cred_id (credentials v ! j) \<noteq> cred_id c)
           \<and> vault (fst (snd (updateCredential P c s b)))
               = Some (v\<lparr>credentials :=
                    (credentials v)[i := c\<lparr>modified := Some (clock b 0)\<rparr>]\<rparr>)
           \<and> isUnlocked (fst (snd (updateCredential P c s b)))
           \<and> fst (updateCredential P c s b) \<noteq> Failure (Msg ''Credential not found'')"
proof -
  from assms(3) have "\<exists>x\<in>set (credentials v). cred_id x = cred_id c"
    by auto
  from findIndex_exists [where p = "\<lambda>cred. cred_id cred = cred_id c", OF this]
  obtain i where i: "findIndex (\<lambda>cred. cred_id cred = cred_id c) (credentials v) = Some i"
    by blast
  have e: "fst (persistVault P w t d) \<noteq> Inl (Msg m)" for w t d m
    using encryptData_error [of P "argon2Loaded t" "argon2Params t" "random d" w
        "masterPassword t"]
    by (cases "encryptData P (argon2Loaded t) (argon2Params t) (random d) w
          (masterPassword t)")
      (auto simp add: persistVault_def Let_def split: sum.splits)
  have r: "fst (updateCredential P c s b) \<noteq> Failure (Msg ''Credential not found'')"
    using assms(1,2) i e
    by (auto simp add: updateCredential_def Let_def split_def split: sum.splits)
  from findIndex_Some [OF i] updateCredential_found [OF assms(1,2) i, of P b] assms(1) r
  show ?thesis
    by (intro exI [of _ i]) simp
qed

theorem update_replaces_credential_witness:
  "isUnlocked sample_unlocked
   \<and> vault sample_unlocked = Some sample_vault
   \<and> cred_id sample_update \<in> cred_id ` set (credentials sample_vault)
   \<and> vault (fst (snd (updateCredential (toy_platform sample_vault) sample_update
        sample_unlocked sample_initialized)))
      = Some (sample_vault\<lparr>credentials := [sample_update\<lparr>modified := Some 1700000000500\<rparr>]\<rparr>)"
proof -
  have u: "isUnlocked sample_unlocked" "vault sample_unlocked = Some sample_vault"
    by (simp_all add: sample_unlocked_def)
  have m: "cred_id sample_update \<in> cred_id ` set (credentials sample_vault)"
    by (simp add: sample_vault_def sample_credential_def sample_update_def)
  have c: "clock sample_initialized 0 = 1700000000500"
    by (simp add: sample_initialized_def sample_browser_def)
  from update_replaces_credential [OF u m, of "toy_platform sample_vault" sample_initialized]
  obtain i where "i < length (credentials sample_vault)"
    and "vault (fst (snd (updateCredential (toy_platform sample_vault) sample_update
        sample_unlocked sample_initialized)))
      = Some (sample_vault\<lparr>credentials :=
           (credentials sample_vault)[i := sample_update\<lparr>modified := Some (clock sample_initialized 0)\<rparr>]\<rparr>)"
    by blast
  then show ?thesis
    using u m by (simp add: c sample_vault_def)
qed

section \<open>Credentials for a domain\<close>

lemma startsWith_iff: "startsWith s t \<longleftrightarrow> (\<exists>q. s = t @ q)"
  by (induction s t rule: startsWith.induct) auto

lemma str_includes_iff: "str_includes s t \<longleftrightarrow> (\<exists>p q. s = p @ t @ q)"
proof (induction s)
  case Nil
  then show ?case by simp
next
  case (Cons d s)
  show ?case
  proof
    assume "str_includes (d # s) t"
    then consider "startsWith (d # s) t" | "str_includes s t" by auto
    then show "\<exists>p q. d # s = p @ t @ q"
    proof cases
      case 1
      then obtain q where "d # s = t @ q" by (auto simp add: startsWith_iff)
      then have "d # s = [] @ t @ q" by simp
      then show ?thesis by blast
    next
      case 2
      with Cons.IH obtain p q where "s = p @ t @ q" by blast
      then have "d # s = (d # p) @ t @ q" by simp
      then show ?thesis by blast
    qed
  next
    assume "\<exists>p q. d # s = p @ t @ q"
    then obtain p q where pq: "d # s = p @ t @ q" by blast
    show "str_includes (d # s) t"
    proof (cases p)
      case Nil
      with pq have "startsWith (d # s) t" by (auto simp add: startsWith_iff)
      then show ?thesis by simp
    next
      case (Cons a p')
      with pq have "s = p' @ t @ q" by simp
      with Cons.IH have "str_includes s t" by blast
      then show ?thesis by simp
    qed
  qed
qed

lemma matchesDomain_iff:
  "matchesDomain P d c \<longleftrightarrow>
     (domain c = Some d
      \<or> (\<exists>u. url c = Some u \<and> u \<noteq> [] \<and> (\<exists>p q. u = p @ d @ q))
      \<or> (\<exists>n. name c = Some n \<and> n \<noteq> []
            \<and> (\<exists>p q. toLowerCase P n = p @ toLowerCase P d @ q)))"
  by (auto simp add: matchesDomain_def str_includes_iff split: option.splits)

theorem empty_name_not_matched_counterexample:
  "isUnlocked sample_unlocked_blank
   \<and> vault sample_unlocked_blank = Some (sample_vault\<lparr>credentials := [blank_name_credential]\<rparr>)
   \<and> name blank_name_credential = Some []
   \<and> str_includes (toLowerCase (toy_platform sample_vault) [])
        (toLowerCase (toy_platform sample_vault) [])
   \<and> getCredentials (toy_platform sample_vault) [] sample_unlocked_blank = Credentials []"
  by (simp add: sample_unlocked_blank_def sample_unlocked_def blank_name_credential_def
        getCredentials_def matchesDomain_def toy_platform_def sortBy_def)

text \<open>
  Claim C9, as amended. For every unlocked vault and every query domain \<open>d\<close>,
  \<open>getCredentials(d)\<close> returns exactly the stored credentials \<open>c\<close> (each as often as
  it is stored; \<open>Array.prototype.sort\<close> only reorders them) that satisfy the
  three-way OR: \<open>c.domain\<close> equals \<open>d\<close>, or \<open>c.url\<close> is non-empty and contains \<open>d\<close> as
  a substring, or \<open>c.name\<close> is non-empty and \<open>c.name.toLowerCase()\<close> contains
  \<open>d.toLowerCase()\<close> as a substring, with the case mapping of the engine; no
  credential failing all three tests is returned.
\<close>

theorem getCredentials_three_way_or:
  assumes "isUnlocked s" and "vault s = Some v" and "sort_permutes P"
  shows "\<exists>cs. getCredentials P d s = Credentials cs
       \<and> mset cs = filter_mset
            (\<lambda>c. domain c = Some d
               \<or> (\<exists>u. url c = Some u \<and> u \<noteq> [] \<and> (\<exists>p q. u = p @ d @ q))
               \<or> (\<exists>n. name c = Some n \<and> n \<noteq> []
                     \<and> (\<exists>p q. toLowerCase P n = p @ toLowerCase P d @ q)))
            (mset (credentials v))"
proof -
  have "getCredentials P d s
        = Credentials (arraySort P byRecency (filter (matchesDomain P d) (credentials v)))"
    using assms(1,2) by (simp add: getCredentials_def)
  moreover have "mset (arraySort P byRecency (filter (matchesDomain P d) (credentials v)))
        = filter_mset (matchesDomain P d) (mset (credentials v))"
    using assms(3) by (simp add: sort_permutes_def)
  moreover have "matchesDomain P d
        = (\<lambda>c. domain c = Some d
               \<or> (\<exists>u. url c = Some u \<and> u \<noteq> [] \<and> (\<exists>p q. u = p @ d @ q))
               \<or> (\<exists>n. name c = Some n \<and> n \<noteq> []
                     \<and> (\<exists>p q. toLowerCase P n = p @ toLowerCase P d @ q)))"
    by (rule ext) (rule matchesDomain_iff)
  ultimately show ?thesis by simp
qed

theorem getCredentials_three_way_or_witness:
  "isUnlocked sample_unlocked
   \<and> vault sample_unlocked = Some sample_vault
   \<and> sort_permutes (toy_platform sample_vault)
   \<and> domain sample_credential = Some ''gmail.com''
   \<and> getCredentials (toy_platform sample_vault) ''gmail.com'' sample_unlocked
       = Credentials [sample_credential]"
proof -
  let ?P = "toy_platform sample_vault"
  have u: "isUnlocked sample_unlocked" "vault sample_unlocked = Some sample_vault"
    by (simp_all add: sample_unlocked_def)
  have d: "domain sample_credential = Some ''gmail.com''"
    by (simp add: sample_credential_def)
  from getCredentials_three_way_or [OF u toy_sort_permutes, of sample_vault "''gmail.com''"]
  obtain cs where
    cs: "getCredentials ?P ''gmail.com'' sample_unlocked = Credentials cs"
    and "mset cs = filter_mset
            (\<lambda>c. domain c = Some ''gmail.com''
               \<or> (\<exists>u. url c = Some u \<and> u \<noteq> [] \<and> (\<exists>p q. u = p @ ''gmail.com'' @ q))
               \<or> (\<exists>n. name c = Some n \<and> n \<noteq> []
                     \<and> (\<exists>p q. toLowerCase ?P n = p @ toLowerCase ?P ''gmail.com'' @ q)))
            (mset (credentials sample_vault))"
    by blast
  then have "mset cs = {#sample_credential#}"
    by (simp add: sample_vault_def d)
  then have "cs = [sample_credential]"
    by (cases cs) auto
  with cs u d toy_sort_permutes [of sample_vault] show ?thesis by simp
qed

end
